theory Spec2Isabelle
  imports Main "HOL-Library.Word"
begin

section \<open>Affine maps\<close>

text \<open>
  The fragment of MLIR's affine expressions and maps that the matchers of
  \<^verbatim>\<open>TppUtils.cpp\<close> and \<^verbatim>\<open>ConvertLinalgToXsmm.cpp\<close> inspect. An
  \<^verbatim>\<open>AffineMap\<close> is the number of its dimensions, the number of its symbols and
  the list of its result expressions. A well-formed map only names dimensions
  below \<open>numDims\<close>; MLIR checks this when a map is built.
\<close>

datatype AffineExprKind = Add | Mul | Mod | FloorDiv | CeilDiv

datatype AffineExpr =
    AffineDimExpr nat
  | AffineSymbolExpr nat
  | AffineConstantExpr int
  | AffineBinaryOpExpr AffineExprKind AffineExpr AffineExpr

record AffineMap =
  numDims :: nat
  numSymbols :: nat
  results :: "AffineExpr list"

definition getNumDims :: "AffineMap \<Rightarrow> nat" where
  "getNumDims m = numDims m"

definition getNumSymbols :: "AffineMap \<Rightarrow> nat" where
  "getNumSymbols m = numSymbols m"

definition getNumInputs :: "AffineMap \<Rightarrow> nat" where
  "getNumInputs m = numDims m + numSymbols m"

definition getNumResults :: "AffineMap \<Rightarrow> nat" where
  "getNumResults m = length (results m)"

text \<open>\<^verbatim>\<open>AffineMap::insertResult(expr, pos)\<close>: the same map with \<open>expr\<close> inserted
  before result number \<open>pos\<close>.\<close>

definition insertResult :: "AffineMap \<Rightarrow> AffineExpr \<Rightarrow> nat \<Rightarrow> AffineMap" where
  "insertResult m e pos = m\<lparr>results := take pos (results m) @ e # drop pos (results m)\<rparr>"

text \<open>
  \<^verbatim>\<open>AffineMap::isProjectedPermutation(allowZeroInResults)\<close>. The loop keeps the
  dimensions it has seen (the C++ keeps a vector of flags indexed by position);
  a result that is not a dimension must be the constant zero, and only when
  zeros are allowed.
\<close>

fun projectedPermutationLoop :: "bool \<Rightarrow> nat list \<Rightarrow> AffineExpr list \<Rightarrow> bool" where
  "projectedPermutationLoop allowZero seen [] = True"
| "projectedPermutationLoop allowZero seen (AffineDimExpr p # es) =
     (if p \<in> set seen then False else projectedPermutationLoop allowZero (p # seen) es)"
| "projectedPermutationLoop allowZero seen (AffineConstantExpr c # es) =
     (if \<not> allowZero \<or> c \<noteq> 0 then False else projectedPermutationLoop allowZero seen es)"
| "projectedPermutationLoop allowZero seen (e # es) = False"

definition isProjectedPermutation :: "AffineMap \<Rightarrow> bool \<Rightarrow> bool" where
  "isProjectedPermutation m allowZeroInResults =
     (if getNumSymbols m > 0 then False
      else if getNumResults m > getNumInputs m then False
      else projectedPermutationLoop allowZeroInResults [] (results m))"

text \<open>
  \<^verbatim>\<open>AffineMap::isMinorIdentityWithBroadcasting(&broadcastedDims)\<close>: every result
  is the constant zero (a broadcast dimension, whose result index is recorded) or
  the dimension at the matching position of the map's suffix. The function
  returns \<open>None\<close> for the C++ \<^verbatim>\<open>false\<close> and the recorded indices otherwise.
\<close>

fun minorIdentityLoop :: "nat \<Rightarrow> nat \<Rightarrow> AffineExpr list \<Rightarrow> nat list option" where
  "minorIdentityLoop suffixStart resIdx [] = Some []"
| "minorIdentityLoop suffixStart resIdx (AffineConstantExpr c # es) =
     (if c \<noteq> 0 then None
      else map_option (\<lambda>bs. resIdx # bs) (minorIdentityLoop suffixStart (Suc resIdx) es))"
| "minorIdentityLoop suffixStart resIdx (AffineDimExpr p # es) =
     (if p \<noteq> suffixStart + resIdx then None
      else minorIdentityLoop suffixStart (Suc resIdx) es)"
| "minorIdentityLoop suffixStart resIdx (e # es) = None"

definition isMinorIdentityWithBroadcasting :: "AffineMap \<Rightarrow> nat list option" where
  "isMinorIdentityWithBroadcasting m =
     (if getNumDims m < getNumResults m then None
      else minorIdentityLoop (getNumDims m - getNumResults m) 0 (results m))"

datatype 'a FailureOr = failure | success 'a

section \<open>Types, values and operations\<close>

text \<open>
  The part of MLIR's IR that the code reads. A shape is a list of 64-bit extents,
  where \<^verbatim>\<open>ShapedType::kDynamic\<close> marks a dynamic extent. A value is a block
  argument or a result of its defining operation, so the use-def chain of a
  value is part of the value, as it is in SSA form; two operations are the same
  operation when they agree on every field, \<open>opId\<close> included.
\<close>

datatype ElementType = IntegerType nat | FloatType nat | IndexType

datatype Type =
    ScalarType ElementType
  | RankedTensorType "int list" ElementType
  | MemRefType "int list" ElementType
  | OtherType

definition kDynamic :: int where
  "kDynamic = - (2 ^ 63)"

definition isDynamic :: "int \<Rightarrow> bool" where
  "isDynamic d = (d = kDynamic)"

fun isShapedType :: "Type \<Rightarrow> bool" where
  "isShapedType (RankedTensorType shape e) = True"
| "isShapedType (MemRefType shape e) = True"
| "isShapedType t = False"

fun getShape :: "Type \<Rightarrow> int list" where
  "getShape (RankedTensorType shape e) = shape"
| "getShape (MemRefType shape e) = shape"
| "getShape t = []"

definition getRank :: "Type \<Rightarrow> nat" where
  "getRank t = length (getShape t)"

fun isIntOrFloat :: "Type \<Rightarrow> bool" where
  "isIntOrFloat (ScalarType (IntegerType w)) = True"
| "isIntOrFloat (ScalarType (FloatType w)) = True"
| "isIntOrFloat t = False"

datatype OpName =
    LinalgFillOp | LinalgCopyOp | MemrefCopyOp | MemrefSubViewOp | TensorCastOp
  | TensorExtractSliceOp | ArithAddFOp | ArithMulFOp | ArithAddIOp | ArithMulIOp
  | ArithMaxFOp | LinalgYieldOp | LinalgGenericOp | XsmmUnaryDispatchOp | OtherOp string

datatype Value =
    BlockArgument nat nat Type
  | OpResult Operation nat
and Operation =
    Operation (opId: nat) (opName: OpName) (getOperands: "Value list")
      (getNumDpsInputs: nat) (getResultTypes: "Type list")

fun getDefiningOp :: "Value \<Rightarrow> Operation option" where
  "getDefiningOp (BlockArgument b i t) = None"
| "getDefiningOp (OpResult p i) = Some p"

fun getType :: "Value \<Rightarrow> Type" where
  "getType (BlockArgument b i t) = t"
| "getType (OpResult p i) = getResultTypes p ! i"

definition getNumOperands :: "Operation \<Rightarrow> nat" where
  "getNumOperands p = length (getOperands p)"

definition getOperand :: "Operation \<Rightarrow> nat \<Rightarrow> Value" where
  "getOperand p i = getOperands p ! i"

definition getResult :: "Operation \<Rightarrow> nat \<Rightarrow> Value" where
  "getResult p i = OpResult p i"

section \<open>Linalg operations\<close>

text \<open>
  A structured (linalg) operation: the operation itself, whose operands are the
  inputs followed by the inits, its iterator types, its indexing maps (one per
  operand) and its regions, each a list of blocks. The operations of a block
  are listed in program order, the terminator last.
\<close>

datatype IteratorType = parallel | reduction

record Block =
  getArguments :: "Value list"
  getOperations :: "Operation list"

record LinalgOp =
  getOperation :: Operation
  getIteratorTypesArray :: "IteratorType list"
  getIndexingMapsArray :: "AffineMap list"
  getRegions :: "Block list list"

definition getDpsInputs :: "LinalgOp \<Rightarrow> Value list" where
  "getDpsInputs linalgOp =
     take (getNumDpsInputs (getOperation linalgOp)) (getOperands (getOperation linalgOp))"

definition getDpsInits :: "LinalgOp \<Rightarrow> Value list" where
  "getDpsInits linalgOp =
     drop (getNumDpsInputs (getOperation linalgOp)) (getOperands (getOperation linalgOp))"

definition getNumLoops :: "LinalgOp \<Rightarrow> nat" where
  "getNumLoops linalgOp = length (getIteratorTypesArray linalgOp)"

definition getNumParallelLoops :: "LinalgOp \<Rightarrow> nat" where
  "getNumParallelLoops linalgOp =
     length (filter (\<lambda>t. t = parallel) (getIteratorTypesArray linalgOp))"

text \<open>
  \<^verbatim>\<open>hasBufferSemantics\<close>, \<^verbatim>\<open>hasTensorSemantics\<close> and \<^verbatim>\<open>hasDynamicShape\<close> of MLIR's
  linalg interface: no results and every shaped operand a memref; every shaped
  operand a ranked tensor; some extent of some operand is dynamic.
\<close>

definition hasBufferSemantics :: "LinalgOp \<Rightarrow> bool" where
  "hasBufferSemantics linalgOp =
     (getResultTypes (getOperation linalgOp) = []
      \<and> list_all (\<lambda>v. \<not> isShapedType (getType v)
                        \<or> (case getType v of MemRefType shape e \<Rightarrow> True | _ \<Rightarrow> False))
           (getOperands (getOperation linalgOp)))"

definition hasTensorSemantics :: "LinalgOp \<Rightarrow> bool" where
  "hasTensorSemantics linalgOp =
     list_all (\<lambda>v. \<not> isShapedType (getType v)
                     \<or> (case getType v of RankedTensorType shape e \<Rightarrow> True | _ \<Rightarrow> False))
       (getOperands (getOperation linalgOp))"

definition hasDynamicShape :: "LinalgOp \<Rightarrow> bool" where
  "hasDynamicShape linalgOp =
     list_ex (\<lambda>v. list_ex isDynamic (getShape (getType v)))
       (getOperands (getOperation linalgOp))"

section \<open>UnaryInfo (ConvertLinalgToXsmm.cpp)\<close>

text \<open>
  The fields \<^verbatim>\<open>unsigned m, n\<close> are 32-bit words; \<^verbatim>\<open>int64_t ldi, ldo\<close> are copied
  from the strides and never computed with, so they stay integers.
\<close>

record UnaryInfo =
  unaryInfo_m :: "32 word"
  unaryInfo_n :: "32 word"
  unaryInfo_ldi :: int
  unaryInfo_ldo :: int

text \<open>
  What running a function gives: it returns, or it stops at an \<^verbatim>\<open>assert\<close> (in a
  build without assertions the behaviour is undefined there), or it does not
  return.
\<close>

datatype 'a Run = Return 'a | AssertionFailure | Diverges

text \<open>
  \<^verbatim>\<open>getUnaryInfo(input, output)\<close>. \<^verbatim>\<open>mlir::utils::getStaticStrides\<close> is a helper of
  the repository outside these sources; it is the parameter \<open>getStaticStrides\<close>.
  \<^verbatim>\<open>back()\<close> on an empty vector of strides is an assertion failure. The extents
  are narrowed from \<^verbatim>\<open>int64_t\<close> to \<^verbatim>\<open>unsigned\<close> when they are stored.
\<close>

definition getUnaryInfo ::
  "(Value \<Rightarrow> int list FailureOr) \<Rightarrow> Value \<Rightarrow> Value \<Rightarrow> UnaryInfo FailureOr Run" where
  "getUnaryInfo getStaticStrides input output =
     (let outputType = getType output in
      if \<not> isShapedType outputType then AssertionFailure
      else if getRank outputType \<noteq> 2 then Return failure
      else
        let m = (word_of_int (getShape outputType ! 0) :: 32 word);
            n = (word_of_int (getShape outputType ! 1) :: 32 word);
            onOutput = (\<lambda>ldi.
              case getStaticStrides output of
                failure \<Rightarrow> Return failure
              | success stridesOnOutput \<Rightarrow>
                  if stridesOnOutput = [] then AssertionFailure
                  else if last stridesOnOutput \<noteq> 1 then Return failure
                  else Return (success \<lparr>unaryInfo_m = m, unaryInfo_n = n,
                          unaryInfo_ldi = ldi, unaryInfo_ldo = hd stridesOnOutput\<rparr>))
        in if isShapedType (getType input) then
             (case getStaticStrides input of
                failure \<Rightarrow> Return failure
              | success stridesOnInput \<Rightarrow>
                  if stridesOnInput = [] then AssertionFailure
                  else if last stridesOnInput \<noteq> 1 then Return failure
                  else onOutput (hd stridesOnInput))
           else onOutput 1)"

section \<open>Broadcast classification (ConvertLinalgToXsmm.cpp)\<close>

text \<open>
  \<^verbatim>\<open>BroadCastType\<close> and the flags of \<^verbatim>\<open>xsmm::UnaryFlags\<close> that the code uses. Both enums
  have a member \<^verbatim>\<open>NONE\<close>; the one of \<^verbatim>\<open>xsmm::UnaryFlags\<close> is \<open>UF_NONE\<close> here.
\<close>

datatype BroadCastType = NONE | SCALAR | ROW | COL

datatype UnaryFlags = UF_NONE | BCAST_ROW | BCAST_COL | BCAST_SCALAR

text \<open>
  The loop of \<^verbatim>\<open>getBroadCastFromMap\<close> that extends a map with leading zeros:
  \<^verbatim>\<open>while (map.getNumResults() != map.getNumInputs()) map = map.insertResult(0, 0)\<close>.
  The loop as written does not end on a map with more results than inputs, so it
  is a partial function: \<open>None\<close> is "does not return".
\<close>

partial_function (option) extendWithLeadingZeros :: "AffineMap \<Rightarrow> AffineMap option" where
  "extendWithLeadingZeros m =
     (if getNumResults m \<noteq> getNumInputs m
      then extendWithLeadingZeros (insertResult m (AffineConstantExpr 0) 0)
      else Some m)"

declare extendWithLeadingZeros.simps [code]

definition getBroadCastFromMap :: "AffineMap \<Rightarrow> BroadCastType FailureOr option" where
  "getBroadCastFromMap m =
     (if getNumResults m > getNumInputs m \<or> getNumInputs m \<noteq> 2 \<or> getNumSymbols m \<noteq> 0
      then Some failure
      else if getNumResults m = 0 then Some (success SCALAR)
      else case extendWithLeadingZeros m of
        None \<Rightarrow> None
      | Some m' \<Rightarrow>
          Some (if \<not> isProjectedPermutation m' True then failure
                else case isMinorIdentityWithBroadcasting m' of
                  None \<Rightarrow> failure
                | Some broadcastedDims \<Rightarrow>
                    (if broadcastedDims = [] then success NONE
                     else if length broadcastedDims \<noteq> 1 then failure
                     else if broadcastedDims ! 0 = 0 then success COL
                     else success ROW)))"

definition getBroadCastUnaryFlagFromMap :: "AffineMap \<Rightarrow> UnaryFlags FailureOr option" where
  "getBroadCastUnaryFlagFromMap m =
     map_option (\<lambda>broadCastType.
        case broadCastType of
          failure \<Rightarrow> failure
        | success SCALAR \<Rightarrow> success BCAST_SCALAR
        | success ROW \<Rightarrow> success BCAST_ROW
        | success COL \<Rightarrow> success BCAST_COL
        | success NONE \<Rightarrow> success UF_NONE)
       (getBroadCastFromMap m)"

section \<open>The rewrite patterns (ConvertLinalgToXsmm.cpp)\<close>

text \<open>
  The rewriter is the list of what it has done, oldest first, and the number of
  the next operation it creates. A pattern that returns without touching the
  rewriter leaves the IR as it was.
\<close>

datatype LogicalResult = Failure | Success

datatype UnaryKind = ZERO | RELU | TRANSPOSE

datatype 'dt RewriteAction =
    CreateUnaryDispatchOp Operation UnaryKind "int list" "UnaryFlags list" 'dt
  | ReplaceOpWithNewUnaryOp LinalgOp 'dt UnaryKind "Value list"

record 'dt PatternRewriter =
  nextOpId :: nat
  actions :: "'dt RewriteAction list"

text \<open>
  \<^verbatim>\<open>replaceOpWithUnary\<close>: a dispatch with the dims \<open>{m, n, ldi, ldo}\<close> (the unsigned
  \<open>m\<close> and \<open>n\<close> widened to 64 bits), then the invoke that replaces the operation;
  its operands are the dispatch result followed by the operands of the replaced
  operation. \<^verbatim>\<open>xsmm::utils::getDataType\<close> is a helper of the repository outside
  these sources; it is the parameter \<open>getDataType\<close>. Reading the first init
  operand of an operation that has none is an assertion failure.
\<close>

definition replaceOpWithUnary ::
  "(Type \<Rightarrow> 'dt) \<Rightarrow> 'dt PatternRewriter \<Rightarrow> LinalgOp \<Rightarrow> UnaryInfo \<Rightarrow> UnaryFlags list \<Rightarrow> UnaryKind
     \<Rightarrow> unit Run \<times> 'dt PatternRewriter" where
  "replaceOpWithUnary getDataType rewriter linalgOp unaryInfo flags kind =
     (let dims = [uint (unaryInfo_m unaryInfo), uint (unaryInfo_n unaryInfo),
                  unaryInfo_ldi unaryInfo, unaryInfo_ldo unaryInfo]
      in if getDpsInits linalgOp = [] then (AssertionFailure, rewriter)
      else
        let dtype = getDataType (getType (getDpsInits linalgOp ! 0));
            dispatchOp = Operation (nextOpId rewriter) XsmmUnaryDispatchOp [] 0
                           [ScalarType (IntegerType 64)];
            dispatched = OpResult dispatchOp 0;
            invokeOperands = dispatched # getOperands (getOperation linalgOp)
        in (Return (),
            rewriter\<lparr>nextOpId := nextOpId rewriter + 2,
                     actions := actions rewriter @
                       [CreateUnaryDispatchOp dispatchOp kind dims flags dtype,
                        ReplaceOpWithNewUnaryOp linalgOp dtype kind invokeOperands]\<rparr>))"

text \<open>
  The three patterns. The structural matchers \<^verbatim>\<open>isTwoDFillOpWithZeros\<close>,
  \<^verbatim>\<open>isTwoDTransposeOp\<close> and \<^verbatim>\<open>isTwoDReluOp\<close> of \<^verbatim>\<open>structured_match::utils\<close> are
  outside these sources; each is a parameter that returns whether the operation
  matched and the operands it collected.
\<close>

definition ConvertFillOpToUnaryZero_matchAndRewrite ::
  "(LinalgOp \<Rightarrow> bool \<times> Value list) \<Rightarrow> (Value \<Rightarrow> int list FailureOr) \<Rightarrow> (Type \<Rightarrow> 'dt)
     \<Rightarrow> LinalgOp \<Rightarrow> 'dt PatternRewriter \<Rightarrow> LogicalResult Run \<times> 'dt PatternRewriter" where
  "ConvertFillOpToUnaryZero_matchAndRewrite isTwoDFillOpWithZeros getStaticStrides getDataType
       fillOp rewriter =
     (case isTwoDFillOpWithZeros fillOp of (matched, operands) \<Rightarrow>
        if \<not> matched \<or> length operands \<noteq> 2 then (Return Failure, rewriter)
        else case getUnaryInfo getStaticStrides (operands ! 0) (operands ! 1) of
          AssertionFailure \<Rightarrow> (AssertionFailure, rewriter)
        | Diverges \<Rightarrow> (Diverges, rewriter)
        | Return failure \<Rightarrow> (Return Failure, rewriter)
        | Return (success unaryInfo) \<Rightarrow>
            (case replaceOpWithUnary getDataType rewriter fillOp unaryInfo [BCAST_SCALAR] ZERO of
               (Return u, rewriter') \<Rightarrow> (Return Success, rewriter')
             | (AssertionFailure, rewriter') \<Rightarrow> (AssertionFailure, rewriter')
             | (Diverges, rewriter') \<Rightarrow> (Diverges, rewriter')))"

definition ConvertTransposeOpToUnaryTranspose_matchAndRewrite ::
  "(LinalgOp \<Rightarrow> bool \<times> Value list) \<Rightarrow> (Value \<Rightarrow> int list FailureOr) \<Rightarrow> (Type \<Rightarrow> 'dt)
     \<Rightarrow> LinalgOp \<Rightarrow> 'dt PatternRewriter \<Rightarrow> LogicalResult Run \<times> 'dt PatternRewriter" where
  "ConvertTransposeOpToUnaryTranspose_matchAndRewrite isTwoDTransposeOp getStaticStrides
       getDataType transposeOp rewriter =
     (case isTwoDTransposeOp transposeOp of (matched, operands) \<Rightarrow>
        if \<not> matched \<or> length operands \<noteq> 2 then (Return Failure, rewriter)
        else case getUnaryInfo getStaticStrides (operands ! 0) (operands ! 1) of
          AssertionFailure \<Rightarrow> (AssertionFailure, rewriter)
        | Diverges \<Rightarrow> (Diverges, rewriter)
        | Return failure \<Rightarrow> (Return Failure, rewriter)
        | Return (success unaryInfo) \<Rightarrow>
            (let swapped = unaryInfo\<lparr>unaryInfo_m := unaryInfo_n unaryInfo,
                                       unaryInfo_n := unaryInfo_m unaryInfo\<rparr>
             in case replaceOpWithUnary getDataType rewriter transposeOp swapped [UF_NONE]
                       TRANSPOSE of
               (Return u, rewriter') \<Rightarrow> (Return Success, rewriter')
             | (AssertionFailure, rewriter') \<Rightarrow> (AssertionFailure, rewriter')
             | (Diverges, rewriter') \<Rightarrow> (Diverges, rewriter')))"

text \<open>
  \<^verbatim>\<open>getOperandFromValue\<close>: the number of the first operand whose value is \<open>val\<close>;
  the C++ asserts that there is one.
\<close>

fun findOperand :: "Value list \<Rightarrow> Value \<Rightarrow> nat \<Rightarrow> nat option" where
  "findOperand [] val i = None"
| "findOperand (operand # allOperands) val i =
     (if operand = val then Some i else findOperand allOperands val (Suc i))"

definition getOperandFromValue :: "LinalgOp \<Rightarrow> Value \<Rightarrow> nat Run" where
  "getOperandFromValue genericOp val =
     (case findOperand (getDpsInputs genericOp @ getDpsInits genericOp) val 0 of
        None \<Rightarrow> AssertionFailure
      | Some operandNumber \<Rightarrow> Return operandNumber)"

text \<open>\<^verbatim>\<open>getMatchingIndexingMap\<close>: the map at the operand's number; the verifier of
  linalg keeps one map per operand.\<close>

definition getMatchingIndexingMap :: "LinalgOp \<Rightarrow> nat \<Rightarrow> AffineMap Run" where
  "getMatchingIndexingMap linalgOp operandNumber =
     (if operandNumber < length (getIndexingMapsArray linalgOp)
      then Return (getIndexingMapsArray linalgOp ! operandNumber)
      else AssertionFailure)"

definition ConvertGenericToUnaryRelu_matchAndRewrite ::
  "(LinalgOp \<Rightarrow> bool \<times> Value list) \<Rightarrow> (Value \<Rightarrow> int list FailureOr) \<Rightarrow> (Type \<Rightarrow> 'dt)
     \<Rightarrow> LinalgOp \<Rightarrow> 'dt PatternRewriter \<Rightarrow> LogicalResult Run \<times> 'dt PatternRewriter" where
  "ConvertGenericToUnaryRelu_matchAndRewrite isTwoDReluOp getStaticStrides getDataType
       genericOp rewriter =
     (if \<not> hasBufferSemantics genericOp then (Return Failure, rewriter)
      else case isTwoDReluOp genericOp of (matched, operands) \<Rightarrow>
        if \<not> matched \<or> length operands \<noteq> 2 then (Return Failure, rewriter)
        else case getUnaryInfo getStaticStrides (operands ! 0) (operands ! 1) of
          AssertionFailure \<Rightarrow> (AssertionFailure, rewriter)
        | Diverges \<Rightarrow> (Diverges, rewriter)
        | Return failure \<Rightarrow> (Return Failure, rewriter)
        | Return (success unaryInfo) \<Rightarrow>
            (case getOperandFromValue genericOp (operands ! 0) of
               AssertionFailure \<Rightarrow> (AssertionFailure, rewriter)
             | Diverges \<Rightarrow> (Diverges, rewriter)
             | Return inputOperand \<Rightarrow>
                 (case getMatchingIndexingMap genericOp inputOperand of
                    AssertionFailure \<Rightarrow> (AssertionFailure, rewriter)
                  | Diverges \<Rightarrow> (Diverges, rewriter)
                  | Return indexingMap \<Rightarrow>
                      (case getBroadCastUnaryFlagFromMap indexingMap of
                         None \<Rightarrow> (Diverges, rewriter)
                       | Some failure \<Rightarrow> (Return Failure, rewriter)
                       | Some (success broadCastFlag) \<Rightarrow>
                           (case replaceOpWithUnary getDataType rewriter genericOp unaryInfo
                                   [broadCastFlag] RELU of
                              (Return u, rewriter') \<Rightarrow> (Return Success, rewriter')
                            | (AssertionFailure, rewriter') \<Rightarrow> (AssertionFailure, rewriter')
                            | (Diverges, rewriter') \<Rightarrow> (Diverges, rewriter'))))))"

text \<open>
  For stating the classification: the results of a map extended with leading
  zeros up to the number of its inputs, and the number of broadcast dimensions
  (zero results) of the extended map.
\<close>

definition leadingZeros :: "AffineMap \<Rightarrow> AffineExpr list" where
  "leadingZeros m =
     replicate (getNumInputs m - getNumResults m) (AffineConstantExpr 0) @ results m"

definition numBroadcastDims :: "AffineMap \<Rightarrow> nat" where
  "numBroadcastDims m = length (filter (\<lambda>e. e = AffineConstantExpr 0) (leadingZeros m))"

section \<open>Vocabulary for the properties of the patterns\<close>

text \<open>
  The ways \<^verbatim>\<open>getUnaryInfo\<close> rejects its operands: the output has a rank other
  than 2; an operand is shaped and its innermost stride is not 1; an operand is
  shaped and its strides are not static.
\<close>

definition outputRankNotTwo :: "Value \<Rightarrow> bool" where
  "outputRankNotTwo output = (isShapedType (getType output) \<and> getRank (getType output) \<noteq> 2)"

definition nonUnitInnermostStride :: "(Value \<Rightarrow> int list FailureOr) \<Rightarrow> Value \<Rightarrow> bool" where
  "nonUnitInnermostStride getStaticStrides v =
     (isShapedType (getType v) \<and>
      (case getStaticStrides v of
         failure \<Rightarrow> False
       | success strides \<Rightarrow> strides \<noteq> [] \<and> last strides \<noteq> 1))"

definition noStaticStrides :: "(Value \<Rightarrow> int list FailureOr) \<Rightarrow> Value \<Rightarrow> bool" where
  "noStaticStrides getStaticStrides v =
     (isShapedType (getType v) \<and> getStaticStrides v = failure)"

definition unaryPreconditionFails ::
  "(Value \<Rightarrow> int list FailureOr) \<Rightarrow> Value \<Rightarrow> Value \<Rightarrow> bool" where
  "unaryPreconditionFails getStaticStrides input output =
     (outputRankNotTwo output
      \<or> nonUnitInnermostStride getStaticStrides input \<or> noStaticStrides getStaticStrides input
      \<or> nonUnitInnermostStride getStaticStrides output \<or> noStaticStrides getStaticStrides output)"


text \<open>
  Operands and operations used to instantiate the properties: an \<open>f32\<close> scalar,
  the buffers \<open>memref<8xf32>\<close>, \<open>memref<4x8xf32>\<close> and \<open>memref<4xf32>\<close> as
  function arguments, and a linalg operation with the operands \<open>ins\<close> and \<open>outs\<close>.
\<close>

definition scalarF32 :: Value where
  "scalarF32 = BlockArgument 0 0 (ScalarType (FloatType 32))"

definition memref8 :: Value where
  "memref8 = BlockArgument 0 1 (MemRefType [8] (FloatType 32))"

definition memref4x8 :: Value where
  "memref4x8 = BlockArgument 0 2 (MemRefType [4, 8] (FloatType 32))"

definition memref4 :: Value where
  "memref4 = BlockArgument 0 3 (MemRefType [4] (FloatType 32))"

definition memref8x4 :: Value where
  "memref8x4 = BlockArgument 0 4 (MemRefType [8, 4] (FloatType 32))"

definition contiguousStrides :: "Value \<Rightarrow> int list FailureOr" where
  "contiguousStrides v =
     (if v = memref4x8 then success [8, 1]
      else if v = memref8x4 then success [4, 1]
      else success [1])"

definition stridedBy2 :: "Value \<Rightarrow> int list FailureOr" where
  "stridedBy2 v = (if v = memref4x8 then success [16, 2] else success [1])"

definition linalgOpOn :: "OpName \<Rightarrow> Value list \<Rightarrow> Value list \<Rightarrow> AffineMap list \<Rightarrow> LinalgOp" where
  "linalgOpOn name ins outs maps =
     \<lparr>getOperation = Operation 100 name (ins @ outs) (length ins) [],
      getIteratorTypesArray = [parallel, parallel],
      getIndexingMapsArray = maps,
      getRegions = []\<rparr>"

definition identityMap2 :: AffineMap where
  "identityMap2 = \<lparr>numDims = 2, numSymbols = 0, results = [AffineDimExpr 0, AffineDimExpr 1]\<rparr>"

definition constantMap2 :: AffineMap where
  "constantMap2 =
     \<lparr>numDims = 2, numSymbols = 0, results = [AffineConstantExpr 0, AffineConstantExpr 0]\<rparr>"

definition emptyRewriter :: "nat PatternRewriter" where
  "emptyRewriter = \<lparr>nextOpId = 200, actions = []\<rparr>"






section \<open>Matchers on the body of a linalg operation (TppUtils.cpp)\<close>

text \<open>
  \<^verbatim>\<open>isChainOfUnaryOpsFrom(v, from)\<close>: the loop follows the single operand of the
  defining operation until it meets \<open>from\<close>, a block argument or an operation
  whose number of operands is not 1. The use-def chain is part of the value, so
  the loop is a structural recursion.
\<close>

fun isChainOfUnaryOpsFrom :: "Value \<Rightarrow> Value \<Rightarrow> bool" where
  "isChainOfUnaryOpsFrom (BlockArgument b i t) from = (BlockArgument b i t = from)"
| "isChainOfUnaryOpsFrom (OpResult (Operation k name [x] ni ts) r) from =
     (if OpResult (Operation k name [x] ni ts) r = from then True
      else isChainOfUnaryOpsFrom x from)"
| "isChainOfUnaryOpsFrom (OpResult (Operation k name xs ni ts) r) from =
     (OpResult (Operation k name xs ni ts) r = from)"

text \<open>
  \<^verbatim>\<open>getSingleOpOfType<OpType>(block)\<close>: the walk keeps the first operation of the
  type and gives up at the second. The operations of the modelled block have no
  regions, so the walk visits the operations of the block in order.
\<close>

fun walkSingleOp :: "OpName \<Rightarrow> Operation option \<Rightarrow> Operation list \<Rightarrow> Operation option" where
  "walkSingleOp name res [] = res"
| "walkSingleOp name res (p # ps) =
     (if opName p = name
      then (case res of Some q \<Rightarrow> None | None \<Rightarrow> walkSingleOp name (Some p) ps)
      else walkSingleOp name res ps)"

definition getSingleOpOfType :: "OpName \<Rightarrow> Block \<Rightarrow> Operation option" where
  "getSingleOpOfType name block = walkSingleOp name None (getOperations block)"

text \<open>The terminator of a block is its last operation; the verifier keeps every
  block of a linalg region terminated.\<close>

definition getTerminator :: "Block \<Rightarrow> Operation" where
  "getTerminator block = last (getOperations block)"

definition getNumArguments :: "Block \<Rightarrow> nat" where
  "getNumArguments block = length (getArguments block)"

definition getArgument :: "Block \<Rightarrow> nat \<Rightarrow> Value" where
  "getArgument block i = getArguments block ! i"

text \<open>
  \<^verbatim>\<open>isAddMul<AddOpType, MulOpType>(block)\<close>, with the two operation types as
  arguments. The three checks are joined as the source joins them: \<open>success\<close> is
  set by the first and then updated with \<^verbatim>\<open>|=\<close> twice.
\<close>

definition isAddMul :: "OpName \<Rightarrow> OpName \<Rightarrow> Block \<Rightarrow> bool" where
  "isAddMul AddOpType MulOpType block =
     (if getNumArguments block \<noteq> 3 then False
      else
        let yieldOp = getTerminator block in
        if getNumOperands yieldOp \<noteq> 1 then False
        else
          case (getSingleOpOfType AddOpType block, getSingleOpOfType MulOpType block) of
            (Some addOp, Some mulOp) \<Rightarrow>
              (let argA = getArgument block 0; argB = getArgument block 1;
                   a = getOperand mulOp 0; b = getOperand mulOp 1;
                   mul = getResult mulOp 0;
                   argC = getArgument block 2;
                   c1 = getOperand addOp 0; c2 = getOperand addOp 1;
                   add = getResult addOp 0;
                   res = getOperand yieldOp 0;
                   un = isChainOfUnaryOpsFrom;
                   success = un res add;
                   success = (success \<or> (un c1 argC \<and> un c2 mul) \<or> (un c1 mul \<and> un c2 argC));
                   success = (success \<or> (un a argA \<and> un b argB) \<or> (un a argB \<and> un b argA))
               in success)
          | _ \<Rightarrow> False)"

definition hasOneBlock :: "Block list \<Rightarrow> bool" where
  "hasOneBlock region = (length region = 1)"

definition front :: "Block list \<Rightarrow> Block" where
  "front region = hd region"

definition getNumRegions :: "LinalgOp \<Rightarrow> nat" where
  "getNumRegions linalgOp = length (getRegions linalgOp)"

text \<open>\<^verbatim>\<open>getRegion(0)\<close>, and \<^verbatim>\<open>getRegion()\<close> of a generic operation, which has one
  region.\<close>

definition getRegion :: "LinalgOp \<Rightarrow> Block list" where
  "getRegion linalgOp = getRegions linalgOp ! 0"

definition hasMatmulBody :: "LinalgOp \<Rightarrow> bool" where
  "hasMatmulBody linalgOp =
     (if getNumRegions linalgOp \<noteq> 1 then False
      else
        let region = getRegion linalgOp in
        if \<not> hasOneBlock region then False
        else
          let isFloat = isAddMul ArithAddFOp ArithMulFOp (front region);
              isInt = isAddMul ArithAddIOp ArithMulIOp (front region)
          in isFloat \<or> isInt)"

definition hasStaticShape :: "LinalgOp \<Rightarrow> bool" where
  "hasStaticShape linalgOp = (\<not> hasDynamicShape linalgOp)"

definition hasOnlyYieldOp :: "Block list \<Rightarrow> bool" where
  "hasOnlyYieldOp region =
     (if \<not> hasOneBlock region then False
      else length (getOperations (front region)) = 1)"

definition getNumDpsInits :: "LinalgOp \<Rightarrow> nat" where
  "getNumDpsInits linalgOp = length (getDpsInits linalgOp)"

definition hasCopySemantics :: "LinalgOp \<Rightarrow> bool" where
  "hasCopySemantics linalgOp =
     (if getNumParallelLoops linalgOp \<noteq> getNumLoops linalgOp then False
      else if getNumOperands (getOperation linalgOp) \<noteq> 2
              \<or> length (getDpsInputs linalgOp) \<noteq> 1 then False
      else hasOnlyYieldOp (getRegion linalgOp))"

text \<open>
  \<^verbatim>\<open>hasOnlyScalarElementwiseOp<OP>(region)\<close>: one block with two operations, each
  an \<open>OP\<close> or a \<^verbatim>\<open>linalg.yield\<close> whose result types are all integers or floats.
\<close>

definition hasOnlyScalarElementwiseOp :: "OpName \<Rightarrow> Block list \<Rightarrow> bool" where
  "hasOnlyScalarElementwiseOp OP region =
     (if \<not> hasOneBlock region then False
      else if length (getOperations (front region)) \<noteq> 2 then False
      else list_all (\<lambda>p. \<not> (\<not> (opName p = OP \<or> opName p = LinalgYieldOp)
                               \<or> list_ex (\<lambda>t. \<not> isIntOrFloat t) (getResultTypes p)))
             (getOperations (front region)))"

definition hasOneInputOneOutput :: "LinalgOp \<Rightarrow> bool" where
  "hasOneInputOneOutput linalgOp =
     (length (getDpsInputs linalgOp) = 1 \<and> getNumDpsInits linalgOp = 1)"

text \<open>
  \<^verbatim>\<open>AffineMap::inferFromExprList\<close>: every list of expressions becomes a map whose
  numbers of dimensions and symbols are one more than the largest position used
  in any of the lists.
\<close>

fun dimsUsed :: "AffineExpr \<Rightarrow> nat" where
  "dimsUsed (AffineDimExpr p) = Suc p"
| "dimsUsed (AffineBinaryOpExpr k l r) = max (dimsUsed l) (dimsUsed r)"
| "dimsUsed e = 0"

fun symbolsUsed :: "AffineExpr \<Rightarrow> nat" where
  "symbolsUsed (AffineSymbolExpr p) = Suc p"
| "symbolsUsed (AffineBinaryOpExpr k l r) = max (symbolsUsed l) (symbolsUsed r)"
| "symbolsUsed e = 0"

definition inferFromExprList :: "AffineExpr list list \<Rightarrow> AffineMap list" where
  "inferFromExprList exprsList =
     (let dimCount = fold max (map dimsUsed (concat exprsList)) 0;
          symbolCount = fold max (map symbolsUsed (concat exprsList)) 0
      in map (\<lambda>exprs. \<lparr>numDims = dimCount, numSymbols = symbolCount, results = exprs\<rparr>)
           exprsList)"

definition isParallelIterator :: "IteratorType \<Rightarrow> bool" where
  "isParallelIterator t = (t = parallel)"

definition isReductionIterator :: "IteratorType \<Rightarrow> bool" where
  "isReductionIterator t = (t = reduction)"

definition isTppMatmul :: "LinalgOp \<Rightarrow> bool" where
  "isTppMatmul linalgOp =
     (let iteratorTypes = getIteratorTypesArray linalgOp in
      if length iteratorTypes \<noteq> 3 then False
      else if \<not> (isParallelIterator (iteratorTypes ! 0)
                  \<and> isParallelIterator (iteratorTypes ! 1)
                  \<and> isReductionIterator (iteratorTypes ! 2)) then False
      else
        let i = AffineDimExpr 0; j = AffineDimExpr 1; k = AffineDimExpr 2 in
        if getIndexingMapsArray linalgOp \<noteq> inferFromExprList [[i, k], [k, j], [i, j]]
        then False
        else hasMatmulBody linalgOp)"

text \<open>
  The predicates that map a generic operation to a TPP operation.
  \<^verbatim>\<open>linalg::isElementwise\<close> is a function of MLIR; it is the parameter
  \<open>isElementwise\<close>.
\<close>

definition canMapToTppAdd :: "(LinalgOp \<Rightarrow> bool) \<Rightarrow> LinalgOp \<Rightarrow> bool" where
  "canMapToTppAdd isElementwise linalgOp =
     (if \<not> isElementwise linalgOp then False
      else if \<not> hasStaticShape linalgOp \<or> \<not> hasOneInputOneOutput linalgOp then False
      else hasOnlyScalarElementwiseOp ArithAddFOp (getRegion linalgOp))"

definition isTppAdd :: "LinalgOp \<Rightarrow> bool" where
  "isTppAdd linalgOp =
     (if getNumLoops linalgOp \<noteq> getNumParallelLoops linalgOp then False
      else if length (getDpsInputs linalgOp) \<noteq> 1 \<or> getNumDpsInits linalgOp \<noteq> 1 then False
      else if hasTensorSemantics linalgOp then False
      else hasOnlyScalarElementwiseOp ArithAddFOp (getRegion linalgOp))"

definition isTppRelu :: "LinalgOp \<Rightarrow> bool" where
  "isTppRelu linalgOp =
     (if getNumLoops linalgOp \<noteq> getNumParallelLoops linalgOp then False
      else if length (getDpsInputs linalgOp) \<noteq> 0 \<or> getNumDpsInits linalgOp \<noteq> 1 then False
      else if hasTensorSemantics linalgOp then False
      else hasOnlyScalarElementwiseOp ArithMaxFOp (getRegion linalgOp))"

definition canMapToTppIdentity :: "(LinalgOp \<Rightarrow> bool) \<Rightarrow> LinalgOp \<Rightarrow> bool" where
  "canMapToTppIdentity isElementwise linalgOp =
     (if \<not> isElementwise linalgOp then False
      else hasStaticShape linalgOp \<and> hasCopySemantics linalgOp)"

definition isTppIdentity :: "LinalgOp \<Rightarrow> bool" where
  "isTppIdentity linalgOp =
     (if getNumLoops linalgOp \<noteq> getNumParallelLoops linalgOp then False
      else if length (getDpsInputs linalgOp) \<noteq> 1 \<or> getNumDpsInits linalgOp \<noteq> 1 then False
      else if hasTensorSemantics linalgOp then False
      else hasCopySemantics linalgOp)"

section \<open>Zero detection (TppUtils.cpp)\<close>

text \<open>
  What the zero detection reads of the surrounding IR: the users of an
  operation in the order of \<^verbatim>\<open>user_begin()\<close> to \<^verbatim>\<open>user_end()\<close> (one entry per use),
  and MLIR's constant matchers \<^verbatim>\<open>m_AnyZeroFloat()\<close> and \<^verbatim>\<open>m_Zero()\<close>.
\<close>

record Env =
  users :: "Operation \<Rightarrow> Operation list"
  m_AnyZeroFloat :: "Value \<Rightarrow> bool"
  m_Zero :: "Value \<Rightarrow> bool"

text \<open>
  \<^verbatim>\<open>getPrevUser(op, currentUser)\<close>: the user that follows the first occurrence of
  \<open>currentUser\<close> among the users of \<open>op\<close>, if there is one. \<open>None\<close> is the null
  pointer.
\<close>

fun nextUserAfter :: "Operation list \<Rightarrow> Operation \<Rightarrow> Operation option" where
  "nextUserAfter [] currentUser = None"
| "nextUserAfter (u # us) currentUser =
     (if u = currentUser then (case us of [] \<Rightarrow> None | nextUser # rest \<Rightarrow> Some nextUser)
      else nextUserAfter us currentUser)"

definition getPrevUser :: "Env \<Rightarrow> Operation option \<Rightarrow> Operation option \<Rightarrow> Operation option" where
  "getPrevUser env op' currentUser =
     (case (op', currentUser) of
        (Some p, Some c) \<Rightarrow> nextUserAfter (users env p) c
      | _ \<Rightarrow> None)"

definition isValConstZero :: "Env \<Rightarrow> Value \<Rightarrow> bool" where
  "isValConstZero env val = (m_AnyZeroFloat env val \<or> m_Zero env val)"

text \<open>The inputs of a linalg operation, and the source of a copy, a subview, a
  cast or a slice: its first operand.\<close>

definition getInputs :: "Operation \<Rightarrow> Value list" where
  "getInputs p = take (getNumDpsInputs p) (getOperands p)"

definition getSource :: "Operation \<Rightarrow> Value" where
  "getSource p = getOperand p 0"

text \<open>
  \<^verbatim>\<open>isZeroTensor(Operation *defOp)\<close>. The recursion follows the defining
  operation of the source and then the user that \<^verbatim>\<open>getPrevUser\<close> returns; nothing
  in the code bounds it, so the function is partial and \<open>None\<close> is "does not
  return". \<open>||\<close> does not evaluate its right operand when the left one is true.
\<close>

partial_function (option) isZeroTensor :: "Env \<Rightarrow> Operation option \<Rightarrow> bool option" where
  "isZeroTensor env defOp =
     (case defOp of
        None \<Rightarrow> Some False
      | Some p \<Rightarrow>
          (case opName p of
             LinalgFillOp \<Rightarrow>
               Some (let inputs = getInputs p in
                     if length inputs = 1 then isValConstZero env (inputs ! 0) else False)
           | LinalgCopyOp \<Rightarrow>
               (let inputs = getInputs p in
                if length inputs \<noteq> 1 then Some False
                else
                  Option.bind (isZeroTensor env (getDefiningOp (inputs ! 0))) (\<lambda>fromSource.
                    if fromSource then Some True
                    else isZeroTensor env
                           (getPrevUser env (getDefiningOp (inputs ! 0)) (Some p))))
           | MemrefCopyOp \<Rightarrow>
               Option.bind (isZeroTensor env (getDefiningOp (getSource p))) (\<lambda>fromSource.
                 if fromSource then Some True
                 else isZeroTensor env (getPrevUser env (getDefiningOp (getSource p)) (Some p)))
           | MemrefSubViewOp \<Rightarrow>
               Option.bind (isZeroTensor env (getDefiningOp (getSource p))) (\<lambda>fromSource.
                 if fromSource then Some True
                 else isZeroTensor env (getPrevUser env (getDefiningOp (getSource p)) (Some p)))
           | TensorCastOp \<Rightarrow>
               Option.bind (isZeroTensor env (getDefiningOp (getSource p))) (\<lambda>fromSource.
                 if fromSource then Some True
                 else isZeroTensor env (getPrevUser env (getDefiningOp (getSource p)) (Some p)))
           | TensorExtractSliceOp \<Rightarrow>
               Option.bind (isZeroTensor env (getDefiningOp (getSource p))) (\<lambda>fromSource.
                 if fromSource then Some True
                 else isZeroTensor env (getPrevUser env (getDefiningOp (getSource p)) (Some p)))
           | _ \<Rightarrow> Some False))"

declare isZeroTensor.simps [code]

text \<open>\<^verbatim>\<open>isZeroTensor(Value op)\<close>.\<close>

definition isZeroTensorValue :: "Env \<Rightarrow> Value \<Rightarrow> bool option" where
  "isZeroTensorValue env v = isZeroTensor env (getDefiningOp v)"

text \<open>
  \<^verbatim>\<open>hasMaxfZeroOp\<close>. The inner loop runs over the arguments of the region and the
  outer loop over the operations of its block; each stops with \<open>Some True\<close> at
  the first zero it finds. \<^verbatim>\<open>getMatchingOpOperand(arg)\<close> is the operand at the
  number of the block argument.
\<close>

fun getArgNumber :: "Value \<Rightarrow> nat" where
  "getArgNumber (BlockArgument b i t) = i"
| "getArgNumber (OpResult p i) = i"

definition getMatchingOpOperand :: "LinalgOp \<Rightarrow> Value \<Rightarrow> Value" where
  "getMatchingOpOperand genOp arg = getOperands (getOperation genOp) ! getArgNumber arg"

definition getLhs :: "Operation \<Rightarrow> Value" where
  "getLhs p = getOperand p 0"

definition getRhs :: "Operation \<Rightarrow> Value" where
  "getRhs p = getOperand p 1"

fun maxfUsesZeroOperand :: "Env \<Rightarrow> LinalgOp \<Rightarrow> Operation \<Rightarrow> Value list \<Rightarrow> bool option" where
  "maxfUsesZeroOperand env genOp maxfOp [] = Some False"
| "maxfUsesZeroOperand env genOp maxfOp (arg # args) =
     (if arg \<noteq> getLhs maxfOp \<and> arg \<noteq> getRhs maxfOp
      then maxfUsesZeroOperand env genOp maxfOp args
      else
        let argOp = getMatchingOpOperand genOp arg in
        Option.bind (isZeroTensorValue env argOp) (\<lambda>zero.
          if zero then Some True
          else Option.bind
                 (isZeroTensor env
                    (getPrevUser env (getDefiningOp argOp) (Some (getOperation genOp))))
                 (\<lambda>zeroBefore.
                    if zeroBefore then Some True
                    else maxfUsesZeroOperand env genOp maxfOp args)))"

fun hasMaxfZeroOpLoop :: "Env \<Rightarrow> LinalgOp \<Rightarrow> Operation list \<Rightarrow> bool option" where
  "hasMaxfZeroOpLoop env genOp [] = Some False"
| "hasMaxfZeroOpLoop env genOp (p # ps) =
     (if opName p = ArithMaxFOp
      then
        (if isValConstZero env (getRhs p) then Some True
         else Option.bind (isZeroTensorValue env (getLhs p)) (\<lambda>lhsZero.
           if lhsZero then Some True
           else Option.bind (isZeroTensorValue env (getRhs p)) (\<lambda>rhsZero.
             if rhsZero then Some True
             else Option.bind
                    (maxfUsesZeroOperand env genOp p (getArguments (front (getRegion genOp))))
                    (\<lambda>found. if found then Some True else hasMaxfZeroOpLoop env genOp ps))))
      else hasMaxfZeroOpLoop env genOp ps)"

definition hasMaxfZeroOp :: "Env \<Rightarrow> LinalgOp \<Rightarrow> bool option" where
  "hasMaxfZeroOp env linalgOp =
     (if opName (getOperation linalgOp) \<noteq> LinalgGenericOp then Some False
      else if \<not> hasOneBlock (getRegion linalgOp) then Some False
      else hasMaxfZeroOpLoop env linalgOp (getOperations (front (getRegion linalgOp))))"

definition canMapToTppRelu :: "(LinalgOp \<Rightarrow> bool) \<Rightarrow> Env \<Rightarrow> LinalgOp \<Rightarrow> bool option" where
  "canMapToTppRelu isElementwise env linalgOp =
     (if \<not> isElementwise linalgOp then Some False
      else if \<not> hasStaticShape linalgOp then Some False
      else Option.bind (hasMaxfZeroOp env linalgOp) (\<lambda>maxfZero.
        if \<not> maxfZero then Some False
        else Some (hasOnlyScalarElementwiseOp ArithMaxFOp (getRegion linalgOp))))"

section \<open>Vocabulary for the properties of the matchers\<close>

text \<open>
  Following the spec's words for the body facet of a matmul: the yielded value
  is a chain of unary operations over the result of the addition, the operands
  of the addition are chains over the third block argument and over the result
  of the multiplication, in either order, and the operands of the
  multiplication are chains over the first two block arguments, in either
  order.
\<close>

definition bodyIsAddMulSkeleton :: "OpName \<Rightarrow> OpName \<Rightarrow> Block \<Rightarrow> bool" where
  "bodyIsAddMulSkeleton AddOpType MulOpType block =
     (getNumArguments block = 3 \<and> getNumOperands (getTerminator block) = 1 \<and>
      (case (getSingleOpOfType AddOpType block, getSingleOpOfType MulOpType block) of
         (Some addOp, Some mulOp) \<Rightarrow>
           isChainOfUnaryOpsFrom (getOperand (getTerminator block) 0) (getResult addOp 0)
           \<and> ((isChainOfUnaryOpsFrom (getOperand addOp 0) (getArgument block 2)
                \<and> isChainOfUnaryOpsFrom (getOperand addOp 1) (getResult mulOp 0))
               \<or> (isChainOfUnaryOpsFrom (getOperand addOp 0) (getResult mulOp 0)
                   \<and> isChainOfUnaryOpsFrom (getOperand addOp 1) (getArgument block 2)))
           \<and> ((isChainOfUnaryOpsFrom (getOperand mulOp 0) (getArgument block 0)
                \<and> isChainOfUnaryOpsFrom (getOperand mulOp 1) (getArgument block 1))
               \<or> (isChainOfUnaryOpsFrom (getOperand mulOp 0) (getArgument block 1)
                   \<and> isChainOfUnaryOpsFrom (getOperand mulOp 1) (getArgument block 0)))
       | _ \<Rightarrow> False))"

text \<open>
  A generic operation with the iterators and the indexing maps of a matmul on
  \<open>memref<4x8xf32>\<close>, \<open>memref<8x16xf32>\<close> and \<open>memref<4x16xf32>\<close>, whose body
  multiplies \<open>a\<close> and \<open>b\<close>, adds the product to \<open>c\<close> and then yields \<open>c\<close> itself:
  \<^verbatim>\<open>%0 = arith.mulf %a, %b\<close>, \<^verbatim>\<open>%1 = arith.addf %c, %0\<close>, \<^verbatim>\<open>linalg.yield %c\<close>.
\<close>

definition f32 :: Type where
  "f32 = ScalarType (FloatType 32)"

definition bodyArg :: "nat \<Rightarrow> Value" where
  "bodyArg i = BlockArgument 1 i f32"

definition mulAB :: Operation where
  "mulAB = Operation 10 ArithMulFOp [bodyArg 0, bodyArg 1] 0 [f32]"

definition addCMul :: Operation where
  "addCMul = Operation 11 ArithAddFOp [bodyArg 2, OpResult mulAB 0] 0 [f32]"

definition yieldsAccumulator :: LinalgOp where
  "yieldsAccumulator =
     \<lparr>getOperation = Operation 20 LinalgGenericOp
         [BlockArgument 0 0 (MemRefType [4, 8] (FloatType 32)),
          BlockArgument 0 1 (MemRefType [8, 16] (FloatType 32)),
          BlockArgument 0 2 (MemRefType [4, 16] (FloatType 32))] 2 [],
      getIteratorTypesArray = [parallel, parallel, reduction],
      getIndexingMapsArray =
        [\<lparr>numDims = 3, numSymbols = 0, results = [AffineDimExpr 0, AffineDimExpr 2]\<rparr>,
         \<lparr>numDims = 3, numSymbols = 0, results = [AffineDimExpr 2, AffineDimExpr 1]\<rparr>,
         \<lparr>numDims = 3, numSymbols = 0, results = [AffineDimExpr 0, AffineDimExpr 1]\<rparr>],
      getRegions =
        [[\<lparr>getArguments = [bodyArg 0, bodyArg 1, bodyArg 2],
           getOperations = [mulAB, addCMul, Operation 12 LinalgYieldOp [bodyArg 2] 0 []]\<rparr>]]\<rparr>"





text \<open>
  Generic operations on buffers whose extents are all dynamic
  (\<open>memref<?x?xf32>\<close>): an addition, a relu, a copy and a matmul.
\<close>

definition genericOn ::
  "Value list \<Rightarrow> nat \<Rightarrow> IteratorType list \<Rightarrow> AffineMap list \<Rightarrow> Block \<Rightarrow> LinalgOp" where
  "genericOn operands numInputs iterators maps body =
     \<lparr>getOperation = Operation 40 LinalgGenericOp operands numInputs [],
      getIteratorTypesArray = iterators,
      getIndexingMapsArray = maps,
      getRegions = [[body]]\<rparr>"

definition dynMemref :: "nat \<Rightarrow> Value" where
  "dynMemref i = BlockArgument 0 i (MemRefType [kDynamic, kDynamic] (FloatType 32))"

definition dynamicAdd :: LinalgOp where
  "dynamicAdd =
     (let add = Operation 41 ArithAddFOp [bodyArg 0, bodyArg 1] 0 [f32] in
      genericOn [dynMemref 0, dynMemref 1] 1 [parallel, parallel] [identityMap2, identityMap2]
        \<lparr>getArguments = [bodyArg 0, bodyArg 1],
         getOperations = [add, Operation 42 LinalgYieldOp [OpResult add 0] 0 []]\<rparr>)"

definition dynamicRelu :: LinalgOp where
  "dynamicRelu =
     (let zero = OpResult (Operation 43 (OtherOp ''arith.constant'') [] 0 [f32]) 0;
          maxf = Operation 44 ArithMaxFOp [bodyArg 0, zero] 0 [f32] in
      genericOn [dynMemref 0] 0 [parallel, parallel] [identityMap2]
        \<lparr>getArguments = [bodyArg 0],
         getOperations = [maxf, Operation 45 LinalgYieldOp [OpResult maxf 0] 0 []]\<rparr>)"

definition dynamicIdentity :: LinalgOp where
  "dynamicIdentity =
     genericOn [dynMemref 0, dynMemref 1] 1 [parallel, parallel] [identityMap2, identityMap2]
       \<lparr>getArguments = [bodyArg 0, bodyArg 1],
        getOperations = [Operation 46 LinalgYieldOp [bodyArg 0] 0 []]\<rparr>"

definition dynamicMatmul :: LinalgOp where
  "dynamicMatmul =
     genericOn [dynMemref 0, dynMemref 1, dynMemref 2] 2 [parallel, parallel, reduction]
       [\<lparr>numDims = 3, numSymbols = 0, results = [AffineDimExpr 0, AffineDimExpr 2]\<rparr>,
        \<lparr>numDims = 3, numSymbols = 0, results = [AffineDimExpr 2, AffineDimExpr 1]\<rparr>,
        \<lparr>numDims = 3, numSymbols = 0, results = [AffineDimExpr 0, AffineDimExpr 1]\<rparr>]
       \<lparr>getArguments = [bodyArg 0, bodyArg 1, bodyArg 2],
        getOperations = [mulAB, addCMul, Operation 47 LinalgYieldOp [OpResult addCMul 0] 0 []]\<rparr>"

text \<open>An IR in which no operation has a user and no value is a constant zero.\<close>

definition noUsersEnv :: Env where
  "noUsersEnv = \<lparr>users = (\<lambda>p. []), m_AnyZeroFloat = (\<lambda>v. False), m_Zero = (\<lambda>v. False)\<rparr>"











section \<open>Packing and unpacking (spec 3 and 4.1; LinalgXOps.td)\<close>

text \<open>
  \<^verbatim>\<open>LinalgXOps.td\<close> declares \<^verbatim>\<open>PackOp\<close> and \<^verbatim>\<open>UnPackOp\<close>, their arguments and
  \<^verbatim>\<open>getPackedType\<close>. The C++ that implements them (\<^verbatim>\<open>getPackedType\<close>, the
  verifiers and \<^verbatim>\<open>generateScalarImplementation\<close>) is not among the sources, so
  every definition of this section is modelled from the spec (sections 3 and
  4.1) and from the description of \<^verbatim>\<open>PackOp\<close> in the \<^verbatim>\<open>.td\<close> file.
\<close>



























section \<open>Properties of the broadcast classification\<close>

lemma extend_terminates:
  "getNumResults m \<le> getNumInputs m \<Longrightarrow>
   extendWithLeadingZeros m = Some (m\<lparr>results := leadingZeros m\<rparr>)"
  unfolding leadingZeros_def
proof (induction "getNumInputs m - getNumResults m" arbitrary: m)
  case 0
  then show ?case by (subst extendWithLeadingZeros.simps) simp
next
  case (Suc k)
  let ?m' = "insertResult m (AffineConstantExpr 0) 0"
  have a: "getNumInputs ?m' = getNumInputs m" "getNumResults ?m' = Suc (getNumResults m)"
    by (simp_all add: insertResult_def getNumInputs_def getNumResults_def)
  have lt: "getNumResults m < getNumInputs m" using Suc.hyps(2) by simp
  have k: "k = getNumInputs ?m' - getNumResults ?m'" using Suc.hyps(2) by (simp add: a)
  have le: "getNumResults ?m' \<le> getNumInputs ?m'" using lt by (simp add: a)
  have ih: "extendWithLeadingZeros ?m' =
      Some (?m'\<lparr>results := replicate (getNumInputs ?m' - getNumResults ?m')
                                (AffineConstantExpr 0) @ results ?m'\<rparr>)"
    by (rule Suc.hyps(1)[OF k le])
  have d: "getNumInputs m - getNumResults m = Suc (getNumInputs m - Suc (getNumResults m))"
    using lt by simp
  have r: "?m'\<lparr>results := replicate (getNumInputs ?m' - getNumResults ?m')
                            (AffineConstantExpr 0) @ results ?m'\<rparr>
           = m\<lparr>results := replicate (getNumInputs m - getNumResults m)
                            (AffineConstantExpr 0) @ results m\<rparr>"
    unfolding a by (subst d) (simp add: insertResult_def replicate_app_Cons_same)
  show ?case
    using lt by (subst extendWithLeadingZeros.simps) (simp add: ih r)
qed

lemma projectedPermutationLoop_zeros:
  "projectedPermutationLoop True seen (replicate k (AffineConstantExpr 0) @ rs) =
   projectedPermutationLoop True seen rs"
  by (induction k) simp_all

lemma getBroadCastFromMap_2d:
  assumes "\<not> (getNumResults m > getNumInputs m \<or> getNumInputs m \<noteq> 2 \<or> getNumSymbols m \<noteq> 0)"
    and "results m \<noteq> []"
  shows "getBroadCastFromMap m =
     Some (if \<not> projectedPermutationLoop True [] (leadingZeros m) then failure
           else case minorIdentityLoop 0 0 (leadingZeros m) of
             None \<Rightarrow> failure
           | Some broadcastedDims \<Rightarrow>
               (if broadcastedDims = [] then success NONE
                else if length broadcastedDims \<noteq> 1 then failure
                else if broadcastedDims ! 0 = 0 then success COL
                else success ROW))"
proof -
  have e: "extendWithLeadingZeros m = Some (m\<lparr>results := leadingZeros m\<rparr>)"
    using assms(1) by (intro extend_terminates) simp
  have l: "length (leadingZeros m) = 2"
    using assms(1) by (simp add: leadingZeros_def getNumResults_def)
  have d: "numDims m = 2" "numSymbols m = 0"
    using assms(1) by (simp_all add: getNumInputs_def getNumSymbols_def)
  show ?thesis
    using assms l d
    by (simp add: getBroadCastFromMap_def e isProjectedPermutation_def
        isMinorIdentityWithBroadcasting_def getNumResults_def getNumInputs_def
        getNumSymbols_def getNumDims_def)
qed

lemma leadingZeros_cases:
  assumes "\<not> (getNumResults m > getNumInputs m \<or> getNumInputs m \<noteq> 2 \<or> getNumSymbols m \<noteq> 0)"
  shows "(results m = [] \<and> leadingZeros m = [AffineConstantExpr 0, AffineConstantExpr 0])
       \<or> (\<exists>a. results m = [a] \<and> leadingZeros m = [AffineConstantExpr 0, a])
       \<or> (\<exists>a b. results m = [a, b] \<and> leadingZeros m = [a, b])"
proof -
  have "length (results m) \<le> 2" using assms by (simp add: getNumResults_def)
  then consider "results m = []" | a where "results m = [a]" | a b where "results m = [a, b]"
    by (cases "results m"; cases "tl (results m)"; cases "tl (tl (results m))") auto
  then show ?thesis
    using assms by cases (auto simp: leadingZeros_def getNumResults_def numeral_2_eq_2)
qed

lemma classify_pair:
  "(if \<not> projectedPermutationLoop True [] [a, b] then failure
    else case minorIdentityLoop 0 0 [a, b] of
      None \<Rightarrow> failure
    | Some broadcastedDims \<Rightarrow>
        (if broadcastedDims = [] then success NONE
         else if length broadcastedDims \<noteq> 1 then failure
         else if broadcastedDims ! 0 = 0 then success COL
         else success ROW)) =
   (if a = AffineDimExpr 0 \<and> b = AffineDimExpr 1 then success NONE
    else if a = AffineConstantExpr 0 \<and> b = AffineDimExpr 1 then success COL
    else if a = AffineDimExpr 0 \<and> b = AffineConstantExpr 0 then success ROW
    else failure)"
  by (cases a; cases b) auto

text \<open>
  The whole function in closed form: it always returns, and the four successful
  classifications are reached exactly by the maps listed.
\<close>

lemma getBroadCastFromMap_exact:
  "getBroadCastFromMap m =
     Some (if getNumResults m > getNumInputs m \<or> getNumInputs m \<noteq> 2 \<or> getNumSymbols m \<noteq> 0
           then failure
           else if results m = [] then success SCALAR
           else if results m = [AffineDimExpr 0, AffineDimExpr 1] then success NONE
           else if results m = [AffineConstantExpr 0, AffineDimExpr 1]
                 \<or> results m = [AffineDimExpr 1] then success COL
           else if results m = [AffineDimExpr 0, AffineConstantExpr 0] then success ROW
           else failure)"
proof (cases "getNumResults m > getNumInputs m \<or> getNumInputs m \<noteq> 2 \<or> getNumSymbols m \<noteq> 0")
  case True
  then show ?thesis by (simp add: getBroadCastFromMap_def)
next
  case False
  show ?thesis
  proof (cases "results m = []")
    case True
    then show ?thesis using False by (simp add: getBroadCastFromMap_def getNumResults_def)
  next
    case ne: False
    from leadingZeros_cases[OF False] ne
    consider a where "results m = [a]" "leadingZeros m = [AffineConstantExpr 0, a]"
      | a b where "results m = [a, b]" "leadingZeros m = [a, b]" by auto
    then show ?thesis
    proof cases
      case 1
      then show ?thesis
        using getBroadCastFromMap_2d[OF False ne] False
        by (simp only: classify_pair) auto
    next
      case 2
      then show ?thesis
        using getBroadCastFromMap_2d[OF False ne] False
        by (simp only: classify_pair) auto
    qed
  qed
qed

lemma more_than_one_broadcast:
  assumes "results m \<noteq> []" "numBroadcastDims m > 1"
  shows "getBroadCastFromMap m = Some failure"
proof (cases "getNumResults m > getNumInputs m \<or> getNumInputs m \<noteq> 2 \<or> getNumSymbols m \<noteq> 0")
  case True
  then show ?thesis by (simp add: getBroadCastFromMap_def)
next
  case False
  from leadingZeros_cases[OF False] assms(1)
  consider a where "results m = [a]" "leadingZeros m = [AffineConstantExpr 0, a]"
    | a b where "results m = [a, b]" "leadingZeros m = [a, b]" by auto
  then show ?thesis
    using assms(2) False
    by cases (auto simp: getBroadCastFromMap_exact numBroadcastDims_def split: if_splits)
qed

lemma not_projected_permutation:
  assumes "results m \<noteq> []" "\<not> isProjectedPermutation m True"
  shows "getBroadCastFromMap m = Some failure"
proof (cases "getNumResults m > getNumInputs m \<or> getNumInputs m \<noteq> 2 \<or> getNumSymbols m \<noteq> 0")
  case True
  then show ?thesis by (simp add: getBroadCastFromMap_def)
next
  case False
  then have "\<not> projectedPermutationLoop True [] (results m)"
    using assms(2) by (simp add: isProjectedPermutation_def)
  then have "\<not> projectedPermutationLoop True [] (leadingZeros m)"
    by (simp add: leadingZeros_def projectedPermutationLoop_zeros)
  then show ?thesis
    using getBroadCastFromMap_2d[OF False assms(1)] by simp
qed

text \<open>
  Claim C2. Over a 2-D iteration space \<^verbatim>\<open>getBroadCastFromMap\<close> returns NONE for
  \<open>(d0,d1) -> (d0,d1)\<close>, COL for \<open>(d0,d1) -> (0,d1)\<close>, ROW for \<open>(d0,d1) -> (d0,0)\<close>
  and SCALAR for \<open>(d0,d1) -> ()\<close>. It always returns, and it fails for every
  map with results and more than one broadcast dimension, for every map whose
  number of inputs is not 2, for every map with symbols, and for every map with
  results that is not a projected permutation with zeros allowed.
  \<^verbatim>\<open>getBroadCastUnaryFlagFromMap\<close> turns SCALAR, ROW, COL and NONE into the flags
  BCAST_SCALAR, BCAST_ROW, BCAST_COL and NONE, and a failure into a failure.
\<close>

theorem getBroadCastFromMap_classification:
  "getBroadCastFromMap \<lparr>numDims = 2, numSymbols = 0,
      results = [AffineDimExpr 0, AffineDimExpr 1]\<rparr> = Some (success NONE)
   \<and> getBroadCastFromMap \<lparr>numDims = 2, numSymbols = 0,
      results = [AffineConstantExpr 0, AffineDimExpr 1]\<rparr> = Some (success COL)
   \<and> getBroadCastFromMap \<lparr>numDims = 2, numSymbols = 0,
      results = [AffineDimExpr 0, AffineConstantExpr 0]\<rparr> = Some (success ROW)
   \<and> getBroadCastFromMap \<lparr>numDims = 2, numSymbols = 0, results = []\<rparr> = Some (success SCALAR)
   \<and> (\<exists>r. getBroadCastFromMap m = Some r)
   \<and> (results m \<noteq> [] \<and> 1 < numBroadcastDims m \<longrightarrow> getBroadCastFromMap m = Some failure)
   \<and> (getNumInputs m \<noteq> 2 \<longrightarrow> getBroadCastFromMap m = Some failure)
   \<and> (getNumSymbols m \<noteq> 0 \<longrightarrow> getBroadCastFromMap m = Some failure)
   \<and> (results m \<noteq> [] \<and> \<not> isProjectedPermutation m True \<longrightarrow>
        getBroadCastFromMap m = Some failure)
   \<and> (getBroadCastFromMap m = Some (success SCALAR) \<longrightarrow>
        getBroadCastUnaryFlagFromMap m = Some (success BCAST_SCALAR))
   \<and> (getBroadCastFromMap m = Some (success ROW) \<longrightarrow>
        getBroadCastUnaryFlagFromMap m = Some (success BCAST_ROW))
   \<and> (getBroadCastFromMap m = Some (success COL) \<longrightarrow>
        getBroadCastUnaryFlagFromMap m = Some (success BCAST_COL))
   \<and> (getBroadCastFromMap m = Some (success NONE) \<longrightarrow>
        getBroadCastUnaryFlagFromMap m = Some (success UF_NONE))
   \<and> (getBroadCastFromMap m = Some failure \<longrightarrow>
        getBroadCastUnaryFlagFromMap m = Some failure)"
proof -
  have c: "getBroadCastFromMap \<lparr>numDims = 2, numSymbols = 0,
      results = [AffineDimExpr 0, AffineDimExpr 1]\<rparr> = Some (success NONE)"
    "getBroadCastFromMap \<lparr>numDims = 2, numSymbols = 0,
      results = [AffineConstantExpr 0, AffineDimExpr 1]\<rparr> = Some (success COL)"
    "getBroadCastFromMap \<lparr>numDims = 2, numSymbols = 0,
      results = [AffineDimExpr 0, AffineConstantExpr 0]\<rparr> = Some (success ROW)"
    "getBroadCastFromMap \<lparr>numDims = 2, numSymbols = 0, results = []\<rparr> = Some (success SCALAR)"
    by (simp_all add: getBroadCastFromMap_exact getNumInputs_def getNumResults_def
        getNumSymbols_def)
  have t: "\<exists>r. getBroadCastFromMap m = Some r"
    by (simp add: getBroadCastFromMap_exact)
  have f: "getNumInputs m \<noteq> 2 \<longrightarrow> getBroadCastFromMap m = Some failure"
    "getNumSymbols m \<noteq> 0 \<longrightarrow> getBroadCastFromMap m = Some failure"
    by (simp_all add: getBroadCastFromMap_def)
  have u: "getBroadCastFromMap m = Some (success SCALAR) \<longrightarrow>
        getBroadCastUnaryFlagFromMap m = Some (success BCAST_SCALAR)"
    "getBroadCastFromMap m = Some (success ROW) \<longrightarrow>
        getBroadCastUnaryFlagFromMap m = Some (success BCAST_ROW)"
    "getBroadCastFromMap m = Some (success COL) \<longrightarrow>
        getBroadCastUnaryFlagFromMap m = Some (success BCAST_COL)"
    "getBroadCastFromMap m = Some (success NONE) \<longrightarrow>
        getBroadCastUnaryFlagFromMap m = Some (success UF_NONE)"
    "getBroadCastFromMap m = Some failure \<longrightarrow>
        getBroadCastUnaryFlagFromMap m = Some failure"
    by (simp_all add: getBroadCastUnaryFlagFromMap_def)
  show ?thesis
    using c t f u more_than_one_broadcast[of m] not_projected_permutation[of m]
    by blast
qed

theorem getBroadCastFromMap_classification_witness:
  "(results \<lparr>numDims = 2, numSymbols = 0,
        results = [AffineConstantExpr 0, AffineConstantExpr 0]\<rparr> \<noteq> []
    \<and> 1 < numBroadcastDims \<lparr>numDims = 2, numSymbols = 0,
        results = [AffineConstantExpr 0, AffineConstantExpr 0]\<rparr>
    \<and> getBroadCastFromMap \<lparr>numDims = 2, numSymbols = 0,
        results = [AffineConstantExpr 0, AffineConstantExpr 0]\<rparr> = Some failure)
   \<and> (getNumInputs \<lparr>numDims = 3, numSymbols = 0,
        results = [AffineDimExpr 0, AffineDimExpr 1]\<rparr> \<noteq> 2
    \<and> getBroadCastFromMap \<lparr>numDims = 3, numSymbols = 0,
        results = [AffineDimExpr 0, AffineDimExpr 1]\<rparr> = Some failure)
   \<and> (getNumSymbols \<lparr>numDims = 1, numSymbols = 1,
        results = [AffineDimExpr 0, AffineSymbolExpr 0]\<rparr> \<noteq> 0
    \<and> getBroadCastFromMap \<lparr>numDims = 1, numSymbols = 1,
        results = [AffineDimExpr 0, AffineSymbolExpr 0]\<rparr> = Some failure)
   \<and> (\<not> isProjectedPermutation \<lparr>numDims = 2, numSymbols = 0,
        results = [AffineDimExpr 0, AffineDimExpr 0]\<rparr> True
    \<and> getBroadCastFromMap \<lparr>numDims = 2, numSymbols = 0,
        results = [AffineDimExpr 0, AffineDimExpr 0]\<rparr> = Some failure)
   \<and> (getBroadCastFromMap \<lparr>numDims = 2, numSymbols = 0, results = [AffineDimExpr 1]\<rparr>
        = Some (success COL)
    \<and> getBroadCastUnaryFlagFromMap \<lparr>numDims = 2, numSymbols = 0, results = [AffineDimExpr 1]\<rparr>
        = Some (success BCAST_COL))"
  using getBroadCastFromMap_classification
      [of "\<lparr>numDims = 2, numSymbols = 0, results = [AffineConstantExpr 0, AffineConstantExpr 0]\<rparr>"]
    getBroadCastFromMap_classification
      [of "\<lparr>numDims = 3, numSymbols = 0, results = [AffineDimExpr 0, AffineDimExpr 1]\<rparr>"]
    getBroadCastFromMap_classification
      [of "\<lparr>numDims = 1, numSymbols = 1, results = [AffineDimExpr 0, AffineSymbolExpr 0]\<rparr>"]
    getBroadCastFromMap_classification
      [of "\<lparr>numDims = 2, numSymbols = 0, results = [AffineDimExpr 0, AffineDimExpr 0]\<rparr>"]
    getBroadCastFromMap_classification
      [of "\<lparr>numDims = 2, numSymbols = 0, results = [AffineDimExpr 1]\<rparr>"]
  by (simp add: numBroadcastDims_def leadingZeros_def getNumInputs_def getNumResults_def
      getNumSymbols_def isProjectedPermutation_def getBroadCastFromMap_exact)

section \<open>Properties of getUnaryInfo\<close>

lemma getUnaryInfo_success_iff:
  "getUnaryInfo gs input output = Return (success info) \<longleftrightarrow>
     isShapedType (getType output) \<and> getRank (getType output) = 2
     \<and> (\<exists>so. gs output = success so \<and> so \<noteq> [] \<and> last so = 1 \<and> unaryInfo_ldo info = hd so)
     \<and> (if isShapedType (getType input)
         then (\<exists>si. gs input = success si \<and> si \<noteq> [] \<and> last si = 1 \<and> unaryInfo_ldi info = hd si)
         else unaryInfo_ldi info = 1)
     \<and> unaryInfo_m info = word_of_int (getShape (getType output) ! 0)
     \<and> unaryInfo_n info = word_of_int (getShape (getType output) ! 1)"
  by (cases info) (auto simp: getUnaryInfo_def Let_def split: FailureOr.splits)

lemma narrow_eq: "(w :: 32 word) = word_of_int e \<longleftrightarrow> uint w = e mod 2 ^ 32"
proof
  assume "w = word_of_int e"
  then show "uint w = e mod 2 ^ 32" by (simp add: uint_word_of_int)
next
  assume a: "uint w = e mod 2 ^ 32"
  have "w = word_of_int (uint w)" by simp
  also have "\<dots> = word_of_int (e mod 2 ^ 32)" using a by simp
  also have "\<dots> = word_of_int e"
    by (simp add: word_of_int_eq_iff take_bit_eq_mod)
  finally show "w = word_of_int e" .
qed

lemma narrow_in_range: "0 \<le> e \<Longrightarrow> e < 2 ^ 32 \<Longrightarrow> e mod 2 ^ 32 = (e :: int)"
  by simp

lemma getUnaryInfo_not_Diverges: "getUnaryInfo gs input output \<noteq> Diverges"
  by (auto simp: getUnaryInfo_def Let_def split: FailureOr.splits)

lemma getUnaryInfo_precondition:
  "unaryPreconditionFails gs input output \<Longrightarrow>
   getUnaryInfo gs input output \<noteq> AssertionFailure \<Longrightarrow>
   getUnaryInfo gs input output = Return failure"
  by (auto simp: getUnaryInfo_def unaryPreconditionFails_def outputRankNotTwo_def
      nonUnitInnermostStride_def noStaticStrides_def Let_def
      split: FailureOr.splits if_splits)

text \<open>
  Claim C3, as the code has it. \<^verbatim>\<open>getUnaryInfo(input, output)\<close> succeeds exactly
  when the output is shaped with rank 2, its strides are static, there is an
  innermost stride and it is 1, and, when the input is shaped, the same holds of
  the input's strides. On success \<open>ldo\<close> is the output's leading stride, \<open>ldi\<close> is
  the input's leading stride, or 1 for an unshaped input, and \<open>m\<close> and \<open>n\<close> are
  the output's first and second extents reduced modulo \<open>2^32\<close>, the width of the
  \<^verbatim>\<open>unsigned\<close> fields: they are the extents themselves whenever the extents lie
  between 0 and \<open>2^32 - 1\<close>.
\<close>

theorem getUnaryInfo_derivation:
  "(getUnaryInfo gs input output = Return (success info) \<longleftrightarrow>
      isShapedType (getType output) \<and> getRank (getType output) = 2
      \<and> (\<exists>so. gs output = success so \<and> so \<noteq> [] \<and> last so = 1 \<and> unaryInfo_ldo info = hd so)
      \<and> (if isShapedType (getType input)
          then (\<exists>si. gs input = success si \<and> si \<noteq> [] \<and> last si = 1
                  \<and> unaryInfo_ldi info = hd si)
          else unaryInfo_ldi info = 1)
      \<and> uint (unaryInfo_m info) = getShape (getType output) ! 0 mod 2 ^ 32
      \<and> uint (unaryInfo_n info) = getShape (getType output) ! 1 mod 2 ^ 32)
   \<and> (getUnaryInfo gs input output = Return (success info)
        \<and> 0 \<le> getShape (getType output) ! 0 \<and> getShape (getType output) ! 0 < 2 ^ 32
        \<and> 0 \<le> getShape (getType output) ! 1 \<and> getShape (getType output) ! 1 < 2 ^ 32
      \<longrightarrow> uint (unaryInfo_m info) = getShape (getType output) ! 0
        \<and> uint (unaryInfo_n info) = getShape (getType output) ! 1)"
  unfolding getUnaryInfo_success_iff narrow_eq
  using narrow_in_range by auto

theorem getUnaryInfo_derivation_witness:
  "getUnaryInfo
      (\<lambda>v. if v = BlockArgument 0 1 (MemRefType [4, 8] (FloatType 32))
            then success [8, 1] else success [1])
      (BlockArgument 0 0 (MemRefType [8] (FloatType 32)))
      (BlockArgument 0 1 (MemRefType [4, 8] (FloatType 32)))
    = Return (success \<lparr>unaryInfo_m = 4, unaryInfo_n = 8, unaryInfo_ldi = 1, unaryInfo_ldo = 8\<rparr>)
   \<and> (0::int) \<le> getShape (getType (BlockArgument 0 1 (MemRefType [4, 8] (FloatType 32)))) ! 0
   \<and> getShape (getType (BlockArgument 0 1 (MemRefType [4, 8] (FloatType 32)))) ! 0 < 2 ^ 32
   \<and> uint (unaryInfo_m \<lparr>unaryInfo_m = 4, unaryInfo_n = 8, unaryInfo_ldi = 1, unaryInfo_ldo = 8\<rparr>)
       = getShape (getType (BlockArgument 0 1 (MemRefType [4, 8] (FloatType 32)))) ! 0
   \<and> uint (unaryInfo_n \<lparr>unaryInfo_m = 4, unaryInfo_n = 8, unaryInfo_ldi = 1, unaryInfo_ldo = 8\<rparr>)
       = getShape (getType (BlockArgument 0 1 (MemRefType [4, 8] (FloatType 32)))) ! 1"
  using getUnaryInfo_derivation
    [of "\<lambda>v. if v = BlockArgument 0 1 (MemRefType [4, 8] (FloatType 32))
              then success [8, 1] else success [1]"
        "BlockArgument 0 0 (MemRefType [8] (FloatType 32))"
        "BlockArgument 0 1 (MemRefType [4, 8] (FloatType 32))"
        "\<lparr>unaryInfo_m = 4, unaryInfo_n = 8, unaryInfo_ldi = 1, unaryInfo_ldo = 8\<rparr>"]
  by (simp add: getRank_def)

text \<open>
  Claim C3 as it is written fails where an extent does not fit the \<^verbatim>\<open>unsigned\<close>
  field. The output \<open>memref<?x8xf32>\<close> has the static strides \<open>[8, 1]\<close>:
  \<^verbatim>\<open>getUnaryInfo\<close> succeeds and \<open>m\<close> is 0, not the extent. The same happens with
  the static shape \<open>4294967297x1\<close>, where \<open>m\<close> is 1.
\<close>

theorem getUnaryInfo_extent_counterexample:
  "getUnaryInfo (\<lambda>v. success [8, 1]) (BlockArgument 0 0 (ScalarType (FloatType 32)))
      (BlockArgument 0 1 (MemRefType [kDynamic, 8] (FloatType 32)))
    = Return (success \<lparr>unaryInfo_m = 0, unaryInfo_n = 8, unaryInfo_ldi = 1, unaryInfo_ldo = 8\<rparr>)
   \<and> uint (unaryInfo_m \<lparr>unaryInfo_m = 0, unaryInfo_n = 8, unaryInfo_ldi = 1, unaryInfo_ldo = 8\<rparr>)
       \<noteq> getShape (getType (BlockArgument 0 1 (MemRefType [kDynamic, 8] (FloatType 32)))) ! 0
   \<and> getUnaryInfo (\<lambda>v. success [1, 1]) (BlockArgument 0 0 (ScalarType (FloatType 32)))
      (BlockArgument 0 1 (MemRefType [4294967297, 1] (FloatType 32)))
    = Return (success \<lparr>unaryInfo_m = 1, unaryInfo_n = 1, unaryInfo_ldi = 1, unaryInfo_ldo = 1\<rparr>)
   \<and> uint (unaryInfo_m \<lparr>unaryInfo_m = 1, unaryInfo_n = 1, unaryInfo_ldi = 1, unaryInfo_ldo = 1\<rparr>)
       \<noteq> getShape (getType (BlockArgument 0 1 (MemRefType [4294967297, 1] (FloatType 32)))) ! 0"
  by (simp add: getUnaryInfo_def getRank_def kDynamic_def)

section \<open>Properties of the rewrite patterns\<close>

lemma replaceOpWithUnary_cases:
  "replaceOpWithUnary dt rw op info flags kind = (r, rw') \<Longrightarrow>
   (r = AssertionFailure \<and> rw' = rw) \<or> r = Return ()"
  by (auto simp: replaceOpWithUnary_def Let_def split: if_splits)

lemma fill_atomic:
  "fst (ConvertFillOpToUnaryZero_matchAndRewrite f gs dt op rw) \<noteq> Return Success \<Longrightarrow>
   snd (ConvertFillOpToUnaryZero_matchAndRewrite f gs dt op rw) = rw"
  by (auto simp: ConvertFillOpToUnaryZero_matchAndRewrite_def
      split: prod.splits Run.splits FailureOr.splits if_splits
      dest: replaceOpWithUnary_cases)

lemma transpose_atomic:
  "fst (ConvertTransposeOpToUnaryTranspose_matchAndRewrite f gs dt op rw) \<noteq> Return Success \<Longrightarrow>
   snd (ConvertTransposeOpToUnaryTranspose_matchAndRewrite f gs dt op rw) = rw"
  by (auto simp: ConvertTransposeOpToUnaryTranspose_matchAndRewrite_def Let_def
      split: prod.splits Run.splits FailureOr.splits if_splits
      dest: replaceOpWithUnary_cases)

lemma relu_atomic:
  "fst (ConvertGenericToUnaryRelu_matchAndRewrite f gs dt op rw) \<noteq> Return Success \<Longrightarrow>
   snd (ConvertGenericToUnaryRelu_matchAndRewrite f gs dt op rw) = rw"
  by (auto simp: ConvertGenericToUnaryRelu_matchAndRewrite_def Let_def
      split: prod.splits Run.splits FailureOr.splits if_splits option.splits
      dest: replaceOpWithUnary_cases)

lemma fill_miss:
  assumes "\<not> fst (f op) \<or> length (snd (f op)) \<noteq> 2
     \<or> (unaryPreconditionFails gs (snd (f op) ! 0) (snd (f op) ! 1)
        \<and> getUnaryInfo gs (snd (f op) ! 0) (snd (f op) ! 1) \<noteq> AssertionFailure)"
  shows "ConvertFillOpToUnaryZero_matchAndRewrite f gs dt op rw = (Return Failure, rw)"
  using assms getUnaryInfo_precondition[of gs "snd (f op) ! 0" "snd (f op) ! 1"]
  by (auto simp: ConvertFillOpToUnaryZero_matchAndRewrite_def split: prod.splits)

lemma transpose_miss:
  assumes "\<not> fst (f op) \<or> length (snd (f op)) \<noteq> 2
     \<or> (unaryPreconditionFails gs (snd (f op) ! 0) (snd (f op) ! 1)
        \<and> getUnaryInfo gs (snd (f op) ! 0) (snd (f op) ! 1) \<noteq> AssertionFailure)"
  shows "ConvertTransposeOpToUnaryTranspose_matchAndRewrite f gs dt op rw = (Return Failure, rw)"
  using assms getUnaryInfo_precondition[of gs "snd (f op) ! 0" "snd (f op) ! 1"]
  by (auto simp: ConvertTransposeOpToUnaryTranspose_matchAndRewrite_def split: prod.splits)

lemma relu_miss:
  assumes "\<not> hasBufferSemantics op \<or> \<not> fst (f op) \<or> length (snd (f op)) \<noteq> 2
     \<or> (unaryPreconditionFails gs (snd (f op) ! 0) (snd (f op) ! 1)
        \<and> getUnaryInfo gs (snd (f op) ! 0) (snd (f op) ! 1) \<noteq> AssertionFailure)"
  shows "ConvertGenericToUnaryRelu_matchAndRewrite f gs dt op rw = (Return Failure, rw)"
  using assms getUnaryInfo_precondition[of gs "snd (f op) ! 0" "snd (f op) ! 1"]
  by (auto simp: ConvertGenericToUnaryRelu_matchAndRewrite_def split: prod.splits)

lemma relu_broadcast_miss:
  assumes "getUnaryInfo gs (snd (f op) ! 0) (snd (f op) ! 1) \<noteq> AssertionFailure"
    and "getOperandFromValue op (snd (f op) ! 0) = Return i"
    and "getMatchingIndexingMap op i = Return indexingMap"
    and "getBroadCastFromMap indexingMap = Some failure"
  shows "ConvertGenericToUnaryRelu_matchAndRewrite f gs dt op rw = (Return Failure, rw)"
  using assms getUnaryInfo_not_Diverges[of gs "snd (f op) ! 0" "snd (f op) ! 1"]
  by (auto simp: ConvertGenericToUnaryRelu_matchAndRewrite_def getBroadCastUnaryFlagFromMap_def
      split: prod.splits Run.splits FailureOr.splits)

text \<open>
  Claim C7. For each of the three patterns (fill to zero, transpose, relu):
  whenever \<^verbatim>\<open>matchAndRewrite\<close> does not return success, the rewriter is as it
  was, so nothing was created or replaced. It returns failure when the
  structural matcher rejects the operation or does not collect two operands
  (for relu, also when the operation does not have buffer semantics); when the
  output's rank is not 2, or the innermost stride of the input or of the output
  is not 1, or the strides of a shaped operand are not static, provided no
  assertion of \<^verbatim>\<open>getUnaryInfo\<close> fails; and, for relu, when the broadcast
  classification of the input's indexing map fails.
\<close>

theorem matchAndRewrite_miss_is_atomic:
  "(fst (ConvertFillOpToUnaryZero_matchAndRewrite fF gs dt op rw) \<noteq> Return Success
      \<longrightarrow> snd (ConvertFillOpToUnaryZero_matchAndRewrite fF gs dt op rw) = rw)
   \<and> (\<not> fst (fF op) \<or> length (snd (fF op)) \<noteq> 2
       \<or> (unaryPreconditionFails gs (snd (fF op) ! 0) (snd (fF op) ! 1)
          \<and> getUnaryInfo gs (snd (fF op) ! 0) (snd (fF op) ! 1) \<noteq> AssertionFailure)
      \<longrightarrow> ConvertFillOpToUnaryZero_matchAndRewrite fF gs dt op rw = (Return Failure, rw))
   \<and> (fst (ConvertTransposeOpToUnaryTranspose_matchAndRewrite fT gs dt op rw) \<noteq> Return Success
      \<longrightarrow> snd (ConvertTransposeOpToUnaryTranspose_matchAndRewrite fT gs dt op rw) = rw)
   \<and> (\<not> fst (fT op) \<or> length (snd (fT op)) \<noteq> 2
       \<or> (unaryPreconditionFails gs (snd (fT op) ! 0) (snd (fT op) ! 1)
          \<and> getUnaryInfo gs (snd (fT op) ! 0) (snd (fT op) ! 1) \<noteq> AssertionFailure)
      \<longrightarrow> ConvertTransposeOpToUnaryTranspose_matchAndRewrite fT gs dt op rw
            = (Return Failure, rw))
   \<and> (fst (ConvertGenericToUnaryRelu_matchAndRewrite fR gs dt op rw) \<noteq> Return Success
      \<longrightarrow> snd (ConvertGenericToUnaryRelu_matchAndRewrite fR gs dt op rw) = rw)
   \<and> (\<not> hasBufferSemantics op \<or> \<not> fst (fR op) \<or> length (snd (fR op)) \<noteq> 2
       \<or> (unaryPreconditionFails gs (snd (fR op) ! 0) (snd (fR op) ! 1)
          \<and> getUnaryInfo gs (snd (fR op) ! 0) (snd (fR op) ! 1) \<noteq> AssertionFailure)
      \<longrightarrow> ConvertGenericToUnaryRelu_matchAndRewrite fR gs dt op rw = (Return Failure, rw))
   \<and> (getUnaryInfo gs (snd (fR op) ! 0) (snd (fR op) ! 1) \<noteq> AssertionFailure
       \<and> getOperandFromValue op (snd (fR op) ! 0) = Return i
       \<and> getMatchingIndexingMap op i = Return indexingMap
       \<and> getBroadCastFromMap indexingMap = Some failure
      \<longrightarrow> ConvertGenericToUnaryRelu_matchAndRewrite fR gs dt op rw = (Return Failure, rw))"
  using fill_atomic[of fF gs dt op rw] fill_miss[of fF op gs dt rw]
    transpose_atomic[of fT gs dt op rw] transpose_miss[of fT op gs dt rw]
    relu_atomic[of fR gs dt op rw] relu_miss[of op fR gs dt rw]
    relu_broadcast_miss[of gs fR op i indexingMap dt rw]
  by blast

lemmas example_defs = scalarF32_def memref8_def memref4x8_def memref4_def memref8x4_def
  contiguousStrides_def stridedBy2_def linalgOpOn_def identityMap2_def constantMap2_def
  emptyRewriter_def

theorem matchAndRewrite_miss_is_atomic_witness:
  "(\<not> fst ((\<lambda>p. (False, [])) (linalgOpOn LinalgFillOp [scalarF32] [memref4x8] []))
     \<and> ConvertFillOpToUnaryZero_matchAndRewrite (\<lambda>p. (False, [])) contiguousStrides (\<lambda>t. 0)
          (linalgOpOn LinalgFillOp [scalarF32] [memref4x8] []) emptyRewriter
        = (Return Failure, emptyRewriter))
   \<and> (unaryPreconditionFails contiguousStrides scalarF32 memref4
     \<and> getUnaryInfo contiguousStrides scalarF32 memref4 \<noteq> AssertionFailure
     \<and> ConvertFillOpToUnaryZero_matchAndRewrite (\<lambda>p. (True, [scalarF32, memref4]))
          contiguousStrides (\<lambda>t. 0)
          (linalgOpOn LinalgFillOp [scalarF32] [memref4] []) emptyRewriter
        = (Return Failure, emptyRewriter))
   \<and> (unaryPreconditionFails stridedBy2 memref8x4 memref4x8
     \<and> getUnaryInfo stridedBy2 memref8x4 memref4x8 \<noteq> AssertionFailure
     \<and> ConvertTransposeOpToUnaryTranspose_matchAndRewrite (\<lambda>p. (True, [memref8x4, memref4x8]))
          stridedBy2 (\<lambda>t. 0)
          (linalgOpOn (OtherOp ''linalg.transpose'') [memref8x4] [memref4x8] []) emptyRewriter
        = (Return Failure, emptyRewriter))
   \<and> (getUnaryInfo contiguousStrides memref8 memref4x8 \<noteq> AssertionFailure
     \<and> getOperandFromValue
          (linalgOpOn LinalgGenericOp [memref8] [memref4x8] [constantMap2, identityMap2]) memref8
        = Return 0
     \<and> getMatchingIndexingMap
          (linalgOpOn LinalgGenericOp [memref8] [memref4x8] [constantMap2, identityMap2]) 0
        = Return constantMap2
     \<and> getBroadCastFromMap constantMap2 = Some failure
     \<and> ConvertGenericToUnaryRelu_matchAndRewrite (\<lambda>p. (True, [memref8, memref4x8]))
          contiguousStrides (\<lambda>t. 0)
          (linalgOpOn LinalgGenericOp [memref8] [memref4x8] [constantMap2, identityMap2])
          emptyRewriter
        = (Return Failure, emptyRewriter))"
  using matchAndRewrite_miss_is_atomic
      [of "\<lambda>p. (False, [])" contiguousStrides "\<lambda>t. 0"
          "linalgOpOn LinalgFillOp [scalarF32] [memref4x8] []" emptyRewriter]
    matchAndRewrite_miss_is_atomic
      [of "\<lambda>p. (True, [scalarF32, memref4])" contiguousStrides "\<lambda>t. 0"
          "linalgOpOn LinalgFillOp [scalarF32] [memref4] []" emptyRewriter]
    matchAndRewrite_miss_is_atomic
      [of _ stridedBy2 "\<lambda>t. 0"
          "linalgOpOn (OtherOp ''linalg.transpose'') [memref8x4] [memref4x8] []" emptyRewriter
          "\<lambda>p. (True, [memref8x4, memref4x8])"]
    matchAndRewrite_miss_is_atomic
      [of _ contiguousStrides "\<lambda>t. 0"
          "linalgOpOn LinalgGenericOp [memref8] [memref4x8] [constantMap2, identityMap2]"
          emptyRewriter _ "\<lambda>p. (True, [memref8, memref4x8])" 0 constantMap2]
  by (simp add: example_defs unaryPreconditionFails_def outputRankNotTwo_def
      nonUnitInnermostStride_def noStaticStrides_def getUnaryInfo_def getRank_def
      getOperandFromValue_def getMatchingIndexingMap_def getDpsInputs_def getDpsInits_def
      getBroadCastFromMap_exact getNumInputs_def getNumResults_def getNumSymbols_def)









section \<open>Properties of the matchers\<close>

lemmas matcher_defs = isTppMatmul_def hasMatmulBody_def isAddMul_def getNumRegions_def
  getRegion_def hasOneBlock_def front_def getNumArguments_def getArgument_def getTerminator_def
  getNumOperands_def getOperand_def getResult_def getSingleOpOfType_def inferFromExprList_def
  isParallelIterator_def isReductionIterator_def Let_def
  isTppAdd_def isTppRelu_def isTppIdentity_def hasCopySemantics_def hasOnlyYieldOp_def
  hasOnlyScalarElementwiseOp_def hasTensorSemantics_def hasDynamicShape_def getNumLoops_def
  getNumParallelLoops_def getDpsInputs_def getDpsInits_def getNumDpsInits_def

lemmas dynamic_defs = genericOn_def dynMemref_def dynamicAdd_def dynamicRelu_def
  dynamicIdentity_def dynamicMatmul_def bodyArg_def f32_def mulAB_def addCMul_def
  identityMap2_def isDynamic_def

text \<open>
  The body facet the spec asks for is enough for \<^verbatim>\<open>isAddMul\<close>: the code accepts
  every body the spec describes.
\<close>

lemma isAddMul_accepts_skeleton:
  "bodyIsAddMulSkeleton AddOpType MulOpType block \<Longrightarrow> isAddMul AddOpType MulOpType block"
  by (auto simp: bodyIsAddMulSkeleton_def isAddMul_def Let_def split: option.splits)

text \<open>
  The iterator facet and the access facet of the matmul matcher are enforced:
  \<^verbatim>\<open>isTppMatmul\<close> returns true only for the iterators parallel, parallel,
  reduction and the canonical maps \<open>(i,k)\<close>, \<open>(k,j)\<close>, \<open>(i,j)\<close>.
\<close>

lemma three_elems: "length xs = 3 \<Longrightarrow> xs = [xs ! 0, xs ! 1, xs ! 2]"
  by (cases xs; cases "tl xs"; cases "tl (tl xs)") auto

lemma isTppMatmul_facets:
  assumes "isTppMatmul linalgOp"
  shows "getIteratorTypesArray linalgOp = [parallel, parallel, reduction]
     \<and> getIndexingMapsArray linalgOp =
         [\<lparr>numDims = 3, numSymbols = 0, results = [AffineDimExpr 0, AffineDimExpr 2]\<rparr>,
          \<lparr>numDims = 3, numSymbols = 0, results = [AffineDimExpr 2, AffineDimExpr 1]\<rparr>,
          \<lparr>numDims = 3, numSymbols = 0, results = [AffineDimExpr 0, AffineDimExpr 1]\<rparr>]
     \<and> hasMatmulBody linalgOp"
proof -
  from assms have l: "length (getIteratorTypesArray linalgOp) = 3"
    and i: "getIteratorTypesArray linalgOp ! 0 = parallel"
      "getIteratorTypesArray linalgOp ! 1 = parallel"
      "getIteratorTypesArray linalgOp ! 2 = reduction"
    and m: "getIndexingMapsArray linalgOp =
      inferFromExprList [[AffineDimExpr 0, AffineDimExpr 2], [AffineDimExpr 2, AffineDimExpr 1],
                         [AffineDimExpr 0, AffineDimExpr 1]]"
    and b: "hasMatmulBody linalgOp"
    by (simp_all add: isTppMatmul_def Let_def isParallelIterator_def isReductionIterator_def
        split: if_splits)
  from three_elems[OF l] i have "getIteratorTypesArray linalgOp = [parallel, parallel, reduction]"
    by simp
  moreover from m have "getIndexingMapsArray linalgOp =
         [\<lparr>numDims = 3, numSymbols = 0, results = [AffineDimExpr 0, AffineDimExpr 2]\<rparr>,
          \<lparr>numDims = 3, numSymbols = 0, results = [AffineDimExpr 2, AffineDimExpr 1]\<rparr>,
          \<lparr>numDims = 3, numSymbols = 0, results = [AffineDimExpr 0, AffineDimExpr 1]\<rparr>]"
    by (simp add: inferFromExprList_def eval_nat_numeral)
  ultimately show ?thesis using b by simp
qed

text \<open>
  Claim C1 asks that \<^verbatim>\<open>isTppMatmul\<close> returns true only for a body that is a
  permutation of \<open>u5(u1(c) + u2(u3(a) * u4(b)))\<close>. The code joins the three checks
  of \<^verbatim>\<open>isAddMul\<close> with \<^verbatim>\<open>|=\<close>, so one of them is enough: the generic operation
  \<open>yieldsAccumulator\<close> has the iterators and the maps of a matmul and a body
  that yields \<open>c\<close> unchanged, and \<^verbatim>\<open>isTppMatmul\<close> returns true on it.
\<close>

theorem isTppMatmul_accepts_non_matmul_body:
  "isTppMatmul yieldsAccumulator
   \<and> \<not> bodyIsAddMulSkeleton ArithAddFOp ArithMulFOp (front (getRegion yieldsAccumulator))
   \<and> \<not> bodyIsAddMulSkeleton ArithAddIOp ArithMulIOp (front (getRegion yieldsAccumulator))"
  by (simp add: matcher_defs bodyIsAddMulSkeleton_def yieldsAccumulator_def mulAB_def addCMul_def
      bodyArg_def f32_def)

text \<open>
  Claim C8 as it is written fails for the four \<^verbatim>\<open>isTpp...\<close> predicates: they do
  not look at the extents, and each returns true on an operation whose buffers
  are \<open>memref<?x?xf32>\<close>.
\<close>

theorem isTpp_accepts_dynamic_shape:
  "hasDynamicShape dynamicAdd \<and> isTppAdd dynamicAdd
   \<and> hasDynamicShape dynamicRelu \<and> isTppRelu dynamicRelu
   \<and> hasDynamicShape dynamicIdentity \<and> isTppIdentity dynamicIdentity
   \<and> hasDynamicShape dynamicMatmul \<and> isTppMatmul dynamicMatmul"
  by (simp add: matcher_defs dynamic_defs)

text \<open>
  Claim C8, as the code has it. For every linalg operation with a dynamic
  extent, \<^verbatim>\<open>canMapToTppAdd\<close>, \<^verbatim>\<open>canMapToTppRelu\<close> and \<^verbatim>\<open>canMapToTppIdentity\<close> return
  false; \<^verbatim>\<open>canMapToTppRelu\<close> returns before it starts the zero detection.
\<close>

theorem canMapToTpp_rejects_dynamic_shape:
  "hasDynamicShape linalgOp \<longrightarrow>
     \<not> canMapToTppAdd isElementwise linalgOp
     \<and> canMapToTppRelu isElementwise env linalgOp = Some False
     \<and> \<not> canMapToTppIdentity isElementwise linalgOp"
  by (simp add: canMapToTppAdd_def canMapToTppRelu_def canMapToTppIdentity_def hasStaticShape_def)

theorem canMapToTpp_rejects_dynamic_shape_witness:
  "hasDynamicShape dynamicAdd
   \<and> \<not> canMapToTppAdd (\<lambda>p. True) dynamicAdd
   \<and> canMapToTppRelu (\<lambda>p. True) noUsersEnv dynamicAdd = Some False
   \<and> \<not> canMapToTppIdentity (\<lambda>p. True) dynamicAdd"
  using canMapToTpp_rejects_dynamic_shape[of dynamicAdd "\<lambda>p. True" noUsersEnv]
  by (simp add: hasDynamicShape_def dynamic_defs Let_def)

section \<open>Properties of the zero detection\<close>











section \<open>Refusal of partial matches\<close>




















section \<open>Properties of packing and unpacking\<close>






















end
